theory Spec2Isabelle
  imports Main
begin

section \<open>Errors\<close>

text \<open>
  Every fatal exit of the generator is a value of \<open>error\<close>. \<open>FAULT(msg)\<close> is the
  internal-consistency macro, \<open>msg_error(fmt, str)\<close> the Python back end's own fatal
  routine ("Print an error message and crash"), \<open>fatal_error(fmt, ...)\<close> the generic one.
  The constructor argument is the formatted message. \<open>NullDeref\<close> stands for the crash
  of reading through a null pointer; its argument names the pointer.
\<close>

datatype error = Fault string | MsgError string | FatalError string | NullDeref string

section \<open>Strings\<close>

text \<open>\<open>tolower\<close> of the C locale: only the 26 upper-case ASCII letters change.\<close>

definition tolower :: "char \<Rightarrow> char" where
  "tolower c = (let n = (of_char c :: nat) in if 65 \<le> n \<and> n \<le> 90 then char_of (n + 32) else c)"

text \<open>
  \<open>strcasecmp\<close>: the difference of the first pair of lower-cased bytes that differ,
  the end of a string counting as byte 0.
\<close>

fun strcasecmp :: "string \<Rightarrow> string \<Rightarrow> int" where
  "strcasecmp [] [] = 0"
| "strcasecmp [] (y # ys) = - int (of_char (tolower y))"
| "strcasecmp (x # xs) [] = int (of_char (tolower x))"
| "strcasecmp (x # xs) (y # ys) =
     (if tolower x = tolower y then strcasecmp xs ys
      else int (of_char (tolower x)) - int (of_char (tolower y)))"

text \<open>The decimal text that \<open>printf\<close> gives for \<open>%d\<close>.\<close>

fun digits :: "nat \<Rightarrow> string" where
  "digits n = (if n < 10 then [char_of (48 + n)] else digits (n div 10) @ [char_of (48 + n mod 10)])"

declare digits.simps [simp del]

definition show_int :: "int \<Rightarrow> string" where
  "show_int i = (if i < 0 then ''-'' @ digits (nat (- i)) else digits (nat i))"

section \<open>The shared data model\<close>

subsection \<open>Symbols\<close>

text \<open>
  A symbol of the symbol table, read through its accessors \<open>symname\<close>, \<open>symdescrip\<close>,
  \<open>symvalue\<close> (the declared domain, a list of set names), \<open>symattrib\<close>, \<open>symsize\<close>
  (the element count), \<open>istype\<close>, \<open>isident\<close> and \<open>isused\<close>.
\<close>

datatype Symboltype = set_t | par_t | var_t

record symbol =
  symname :: string
  symdescrip :: string
  symvalue :: "string list"
  symattrib :: "string list"
  symsize :: int
  symtype :: Symboltype
  isident :: bool
  isused :: bool

definition istype :: "symbol \<Rightarrow> Symboltype \<Rightarrow> bool" where
  "istype symb t = (symtype symb = t)"

text \<open>\<open>Context\<close>: the side of the equation and the accumulated time shift.\<close>

record Context =
  lhs :: bool
  dt :: int

text \<open>
  The collaborators whose code is outside the back ends: list membership, the set
  queries, the subscript-to-offset conversion \<open>sub_offset\<close>, the list printer
  \<open>slprint\<close>, whether \<open>fopen\<close> can create a file of a given name, and
  \<open>symbol_subs domain setlist sublist\<close>, the subscripts that the shared routine
  \<open>show_symbol\<close> hands to the back end for a reference with the given domain. They are
  parameters of the model.
\<close>

record env =
  ismember :: "string \<Rightarrow> string list \<Rightarrow> bool"
  issubset :: "string \<Rightarrow> string \<Rightarrow> bool"
  setelements :: "string \<Rightarrow> string list"
  sub_offset :: "string \<Rightarrow> string list \<Rightarrow> int \<Rightarrow> string list"
  slprint :: "string list \<Rightarrow> string"
  can_create :: "string \<Rightarrow> bool"
  symbol_subs :: "string list \<Rightarrow> string list \<Rightarrow> string list \<Rightarrow> string list"

definition bind_err :: "error + 'a \<Rightarrow> ('a \<Rightarrow> error + 'b) \<Rightarrow> error + 'b" where
  "bind_err m f = (case m of Inl e \<Rightarrow> Inl e | Inr x \<Rightarrow> f x)"

subsection \<open>Expression trees and equations\<close>

text \<open>
  \<open>Nodetype\<close> and \<open>Node\<close> of nodes.h, as the back ends use them: the fields \<open>type\<close>,
  \<open>str\<close>, \<open>l\<close>, \<open>r\<close>, \<open>domain\<close>, \<open>lhs\<close> and \<open>dt\<close>. A null pointer is \<open>Null\<close>. The
  constructors of \<open>Nodetype\<close> carry the suffix \<open>_n\<close>.
\<close>

datatype Nodetype = nul_n | add_n | sub_n | mul_n | dvd_n | neg_n | pow_n | log_n | exp_n
  | lag_n | led_n | sum_n | prd_n | nam_n | num_n | equ_n | dom_n | lst_n

datatype Node = Null
  | Node (ntype: Nodetype) (nstr: string) (nl: Node) (nr: Node) (ndomain: "string list")
      (nlhs: bool) (ndt: int)

text \<open>
  An equation, read through the accessors of eqns.h: \<open>getlhs\<close>, \<open>getrhs\<close>, \<open>eqnsets\<close> (the
  sets it is defined over), \<open>eqncount\<close> (the expected number of scalar equations),
  \<open>hasundec\<close>, \<open>istimeok\<close> and \<open>islvalue\<close>.
\<close>

record equation =
  getlhs :: Node
  getrhs :: Node
  eqnsets :: "string list"
  eqncount :: int
  hasundec :: bool
  istimeok :: bool
  islvalue :: bool

text \<open>
  The symbol table as the driver reads it: \<open>firstsymbol(t)\<close> and \<open>nextsymbol\<close> step
  through the list \<open>tab t\<close> of the symbols of type \<open>t\<close>.
\<close>

type_synonym symtable = "Symboltype \<Rightarrow> symbol list"

text \<open>
  The run-time options of options.h, each field the answer of the query of the same
  name.
\<close>

record options =
  is_eqn_set :: bool
  is_sum_set :: bool
  is_eqn_vector :: bool
  is_sum_scalar :: bool
  is_eqn_normalized :: bool
  get_line_length :: nat

text \<open>
  Modelled from the spec: \<open>cart_build\<close>, \<open>cart_first\<close> and \<open>cart_next\<close> of cart.h, the
  Cartesian iterator. Given a list of sets it yields one subscript tuple per combination
  of their elements, each set in its element order, the rightmost set varying fastest.
\<close>

fun cart :: "(string \<Rightarrow> string list) \<Rightarrow> string list \<Rightarrow> string list list" where
  "cart elems [] = [[]]"
| "cart elems (s # ss) = concat (map (\<lambda>e. map (\<lambda>t. e # t) (cart elems ss)) (elems s))"

section \<open>The default back end (default.c)\<close>

subsection \<open>The driver \<open>write_file\<close>\<close>

text \<open>
  The driver calls the back end through the function pointers of codegen.h. A hook
  works on the back end's state \<open>'s\<close> and returns the new state together with the fatal
  error it ended in, if any. Every call the driver makes is recorded as an \<open>event\<close>.
\<close>

datatype event =
    EvBeginFile string
  | EvDeclare symbol
  | EvBeginBlock equation
  | EvShowEq equation "string list" "string list"
  | EvEndFile

record 's codegen =
  codegen_begin_file :: "string \<Rightarrow> 's \<Rightarrow> 's \<times> error option"
  codegen_declare :: "symbol \<Rightarrow> 's \<Rightarrow> 's \<times> error option"
  codegen_begin_block :: "equation \<Rightarrow> 's \<Rightarrow> 's \<times> error option"
  codegen_show_eq :: "equation \<Rightarrow> string list \<Rightarrow> string list \<Rightarrow> 's \<Rightarrow> 's \<times> error option"
  codegen_end_file :: "'s \<Rightarrow> 's \<times> error option"

text \<open>
  A run so far: the calls made, the back end's state, and the fatal error that stopped
  it. Once \<open>failed\<close> is set the process has exited and nothing more happens.
\<close>

record 's run =
  trace :: "event list"
  state :: 's
  failed :: "error option"

definition call :: "event \<Rightarrow> ('s \<Rightarrow> 's \<times> error option) \<Rightarrow> 's run \<Rightarrow> 's run" where
  "call ev h r =
     (if failed r \<noteq> None then r
      else (let (s, e) = h (state r) in \<lparr>trace = trace r @ [ev], state = s, failed = e\<rparr>))"

text \<open>\<open>if (!ok) FAULT(msg)\<close>.\<close>

definition fault_unless :: "bool \<Rightarrow> string \<Rightarrow> 's run \<Rightarrow> 's run" where
  "fault_unless ok msg r = (if failed r \<noteq> None \<or> ok then r else r\<lparr>failed := Some (Fault msg)\<rparr>)"

text \<open>A hook that returns \<open>error + 's\<close>: the state is the old one when it fails.\<close>

definition hook :: "('s \<Rightarrow> error + 's) \<Rightarrow> 's \<Rightarrow> 's \<times> error option" where
  "hook f s = (case f s of Inl e \<Rightarrow> (s, Some e) | Inr s' \<Rightarrow> (s', None))"

text \<open>
  The scalar branch for one equation: \<open>cart_build(eqsets)\<close>, one \<open>show_eq\<close> per tuple
  that \<open>cart_next\<close> yields, \<open>neqns\<close> counted down from \<open>eqncount(eq)\<close>, and the \<open>FAULT\<close> when
  it does not end at zero.
\<close>

definition scalar_eqns :: "env \<Rightarrow> 's codegen \<Rightarrow> equation \<Rightarrow> 's run \<Rightarrow> 's run" where
  "scalar_eqns env cg eq r =
     (let tuples = cart (setelements env) (eqnsets eq);
          r1 = fold (\<lambda>sublist. call (EvShowEq eq (eqnsets eq) sublist)
                                  (codegen_show_eq cg eq (eqnsets eq) sublist)) tuples r;
          neqns = eqncount eq - int (length tuples)
      in fault_unless (neqns = 0) ''Incorrect number of equations written. Using # with a time set?'' r1)"

text \<open>
  The body of the loop over the equations. \<open>skip\<close> says whether the test
  \<open>if (hasundec(eq) || !istimeok(eq)) continue;\<close> is part of the loop.
\<close>

definition eqn_step :: "bool \<Rightarrow> options \<Rightarrow> env \<Rightarrow> 's codegen \<Rightarrow> equation \<Rightarrow> 's run \<Rightarrow> 's run" where
  "eqn_step skip opts env cg eq r =
     (if skip \<and> (hasundec eq \<or> \<not> istimeok eq) then r
      else
        let r1 = call (EvBeginBlock eq) (codegen_begin_block cg eq) r
        in if is_eqn_vector opts
           then call (EvShowEq eq (eqnsets eq) []) (codegen_show_eq cg eq (eqnsets eq) []) r1
           else scalar_eqns env cg eq r1)"

text \<open>
  \<open>Default_write_file\<close>, \<open>PYTHON_write_file\<close> and \<open>HTML_write_file\<close> are the same text
  but for the skip test, which \<open>HTML_write_file\<close> has commented out. \<open>opts\<close> are the
  options as they stand after \<open>begin_file\<close>; \<open>tab\<close> is the symbol table and \<open>eqns\<close> the
  equations as \<open>firsteqn\<close> and \<open>nexteqn\<close> yield them.
\<close>

definition write_file :: "bool \<Rightarrow> options \<Rightarrow> env \<Rightarrow> 's codegen \<Rightarrow> symtable \<Rightarrow> equation list
    \<Rightarrow> string \<Rightarrow> 's \<Rightarrow> 's run" where
  "write_file skip opts env cg tab eqns basename s0 =
     (let r = call (EvBeginFile basename) (codegen_begin_file cg basename)
                \<lparr>trace = [], state = s0, failed = None\<rparr>;
          r = fault_unless (is_eqn_set opts) ''Equation style has not been set'' r;
          r = fault_unless (is_sum_set opts) ''Summation style has not been set'' r;
          r = fold (\<lambda>symb. call (EvDeclare symb) (codegen_declare cg symb)) (tab set_t) r;
          r = fold (\<lambda>symb. call (EvDeclare symb) (codegen_declare cg symb)) (tab par_t) r;
          r = fold (\<lambda>symb. call (EvDeclare symb) (codegen_declare cg symb)) (tab var_t) r;
          r = fold (eqn_step skip opts env cg) eqns r
      in call EvEndFile (codegen_end_file cg) r)"

definition Default_write_file :: "options \<Rightarrow> env \<Rightarrow> 's codegen \<Rightarrow> symtable \<Rightarrow> equation list
    \<Rightarrow> string \<Rightarrow> 's \<Rightarrow> 's run" where
  "Default_write_file = write_file True"

definition HTML_write_file :: "options \<Rightarrow> env \<Rightarrow> 's codegen \<Rightarrow> symtable \<Rightarrow> equation list
    \<Rightarrow> string \<Rightarrow> 's \<Rightarrow> 's run" where
  "HTML_write_file = write_file False"

subsection \<open>The line wrapper \<open>wrap_write\<close>\<close>

text \<open>
  What \<open>wrap_write\<close> writes to the code stream, one \<open>chunk\<close> per \<open>fprintf\<close>:
  \<open>Str s\<close> for the format \<open>"%s"\<close>, \<open>Nl\<close> for \<open>"\n"\<close>, \<open>StrNl s\<close> for \<open>"%s\n"\<close> (a line
  end that was in the input) and \<open>StrBrk s\<close> for \<open>"%s\n   "\<close> (a break the wrapper
  inserts).
\<close>

datatype chunk = Str string | Nl | StrNl string | StrBrk string

fun chunk_text :: "chunk \<Rightarrow> string" where
  "chunk_text (Str s) = s"
| "chunk_text Nl = ''\<newline>''"
| "chunk_text (StrNl s) = s @ ''\<newline>''"
| "chunk_text (StrBrk s) = s @ ''\<newline>   ''"

definition chunks_text :: "chunk list \<Rightarrow> string" where
  "chunks_text cs = concat (map chunk_text cs)"

text \<open>\<open>isspace\<close> of the C locale.\<close>

definition isspace :: "char \<Rightarrow> bool" where
  "isspace c = (c = CHR '' '' \<or> c = CHR 0x09 \<or> c = CHR 0x0A \<or> c = CHR 0x0B \<or> c = CHR 0x0C
                \<or> c = CHR 0x0D)"

text \<open>The flag \<open>do_wrap\<close> for the character \<open>*end\<close>.\<close>

definition do_wrap :: "bool \<Rightarrow> char \<Rightarrow> bool" where
  "do_wrap commaok c =
     (isspace c \<or> (c = CHR ''+'' \<or> c = CHR ''-'' \<or> c = CHR ''*'' \<or> c = CHR ''/'' \<or> c = CHR ''=''
        \<or> c = CHR ''^'') \<or> (commaok \<and> c = CHR '',''))"

text \<open>
  The loop \<open>for (end = rest + get_line_length(); end > rest; end--)\<close>: the value of
  \<open>end - rest\<close> when the loop is left, which is 0 when no character allowed a break.
\<close>

fun find_wrap :: "bool \<Rightarrow> string \<Rightarrow> nat \<Rightarrow> nat" where
  "find_wrap commaok rest 0 = 0"
| "find_wrap commaok rest (Suc e) =
     (if do_wrap commaok (rest ! Suc e) then Suc e else find_wrap commaok rest e)"

text \<open>\<open>strcspn(rest, "\n")\<close>.\<close>

definition strcspn_nl :: "string \<Rightarrow> nat" where
  "strcspn_nl rest = length (takeWhile (\<lambda>c. c \<noteq> CHR 0x0A) rest)"

lemma find_wrap_le: "find_wrap commaok rest e \<le> e"
  by (induction e) auto

function wrap_loop :: "nat \<Rightarrow> bool \<Rightarrow> bool \<Rightarrow> string \<Rightarrow> string \<Rightarrow> chunk list \<times> error option" where
  "wrap_loop len addcr commaok line rest =
     (if length rest \<le> len then (Str rest # (if addcr then [Nl] else []), None)
      else if strcspn_nl rest \<le> len then
        (let (out, err) = wrap_loop len addcr commaok line (drop (Suc (strcspn_nl rest)) rest)
         in (StrNl (take (strcspn_nl rest) rest) # out, err))
      else if find_wrap commaok rest len = 0 then
        ([], Some (FatalError (''Could not wrap long line:\<newline>'' @ line @ ''\<newline>'')))
      else
        (let (out, err) = wrap_loop len addcr commaok line (drop (find_wrap commaok rest len) rest)
         in (StrBrk (take (find_wrap commaok rest len) rest) # out, err)))"
  by pat_completeness auto
termination
  by (relation "measure (\<lambda>(len, addcr, commaok, line, rest). length rest)") auto

declare wrap_loop.simps [simp del]

text \<open>
  \<open>Default_wrap_write(line, addcr, commaok)\<close>, with the configured width \<open>len\<close> that
  \<open>get_line_length()\<close> returns. \<open>PYTHON_wrap_write\<close> is the same text.
\<close>

definition Default_wrap_write :: "nat \<Rightarrow> string \<Rightarrow> bool \<Rightarrow> bool \<Rightarrow> chunk list \<times> error option" where
  "Default_wrap_write len line addcr commaok = wrap_loop len addcr commaok line line"

definition PYTHON_wrap_write :: "nat \<Rightarrow> string \<Rightarrow> bool \<Rightarrow> bool \<Rightarrow> chunk list \<times> error option" where
  "PYTHON_wrap_write len line addcr commaok = wrap_loop len addcr commaok line line"

subsection \<open>The two renderers: \<open>spprint\<close> and \<open>show_node\<close>\<close>

text \<open>
  The first \<open>switch (prevtype)\<close> of \<open>Default_spprint\<close>: the flag \<open>parens\<close> for a node of
  type \<open>cur\<close> under a parent of type \<open>prevtype\<close>, or the fatal error of the default
  branch.
\<close>

definition spprint_parens :: "Nodetype \<Rightarrow> Nodetype \<Rightarrow> error + bool" where
  "spprint_parens prevtype cur =
     (case prevtype of
        nul_n \<Rightarrow> Inr (cur = neg_n)
      | add_n \<Rightarrow> Inr (cur = neg_n)
      | sub_n \<Rightarrow> Inr (cur = neg_n)
      | mul_n \<Rightarrow> Inr (cur = add_n \<or> cur = sub_n \<or> cur = dvd_n \<or> cur = neg_n)
      | neg_n \<Rightarrow> Inr (\<not> (cur = nam_n \<or> cur = num_n \<or> cur = mul_n \<or> cur = log_n \<or> cur = exp_n
                          \<or> cur = pow_n \<or> cur = sum_n \<or> cur = prd_n))
      | dvd_n \<Rightarrow> Inr (\<not> (cur = nam_n \<or> cur = num_n \<or> cur = pow_n \<or> cur = sum_n \<or> cur = prd_n
                          \<or> cur = log_n \<or> cur = exp_n))
      | pow_n \<Rightarrow> Inr (\<not> (cur = nam_n \<or> cur = num_n \<or> cur = log_n \<or> cur = exp_n \<or> cur = sum_n
                          \<or> cur = prd_n))
      | log_n \<Rightarrow> Inr True
      | exp_n \<Rightarrow> Inr True
      | lag_n \<Rightarrow> Inr True
      | led_n \<Rightarrow> Inr True
      | equ_n \<Rightarrow> Inr False
      | sum_n \<Rightarrow> Inr False
      | prd_n \<Rightarrow> Inr False
      | dom_n \<Rightarrow> Inr False
      | nam_n \<Rightarrow> Inr False
      | num_n \<Rightarrow> Inr False
      | lst_n \<Rightarrow> Inl (FatalError ''invalid state reached in spprint''))"

definition spprint_comma :: "Nodetype \<Rightarrow> Nodetype \<Rightarrow> string" where
  "spprint_comma prevtype cur =
     (if (prevtype = nam_n \<or> prevtype = num_n) \<and> (cur = nam_n \<or> cur = num_n) then '','' else [])"

text \<open>The first \<open>switch (prevtype)\<close> of \<open>Default_show_node\<close> and \<open>PYTHON_show_node\<close>.\<close>

definition show_node_parens :: "Nodetype \<Rightarrow> Nodetype \<Rightarrow> error + bool" where
  "show_node_parens prevtype cur =
     (case prevtype of
        nul_n \<Rightarrow> Inr (cur = neg_n)
      | add_n \<Rightarrow> Inr (cur = neg_n)
      | sub_n \<Rightarrow> Inr (cur = neg_n)
      | mul_n \<Rightarrow> Inr (cur = add_n \<or> cur = sub_n \<or> cur = dvd_n \<or> cur = neg_n)
      | neg_n \<Rightarrow> Inr (\<not> (cur = nam_n \<or> cur = num_n \<or> cur = mul_n \<or> cur = log_n \<or> cur = exp_n
                          \<or> cur = pow_n \<or> cur = lag_n \<or> cur = led_n \<or> cur = sum_n \<or> cur = prd_n))
      | dvd_n \<Rightarrow> Inr (\<not> (cur = nam_n \<or> cur = num_n \<or> cur = pow_n \<or> cur = sum_n \<or> cur = prd_n
                          \<or> cur = lag_n \<or> cur = led_n \<or> cur = log_n \<or> cur = exp_n))
      | pow_n \<Rightarrow> Inr (\<not> (cur = nam_n \<or> cur = num_n \<or> cur = log_n \<or> cur = exp_n \<or> cur = sum_n
                          \<or> cur = prd_n \<or> cur = lag_n \<or> cur = led_n))
      | log_n \<Rightarrow> Inr False
      | exp_n \<Rightarrow> Inr False
      | lag_n \<Rightarrow> Inr False
      | led_n \<Rightarrow> Inr False
      | sum_n \<Rightarrow> Inr False
      | prd_n \<Rightarrow> Inr False
      | nam_n \<Rightarrow> Inr False
      | num_n \<Rightarrow> Inr False
      | equ_n \<Rightarrow> Inr False
      | dom_n \<Rightarrow> Inr False
      | lst_n \<Rightarrow> Inl (Fault ''Invalid state reached in show_node''))"

text \<open>\<open>cur->r->type == add || cur->r->type == sub\<close>, which reads through \<open>cur->r\<close>.\<close>

definition right_is_sum :: "Node \<Rightarrow> error + bool" where
  "right_is_sum r = (case r of Null \<Rightarrow> Inl (NullDeref ''cur->r'')
                     | Node t s l r' d lh k \<Rightarrow> Inr (t = add_n \<or> t = sub_n))"

text \<open>The line-break test on the two rendered sides.\<close>

definition too_long :: "string \<Rightarrow> string \<Rightarrow> bool" where
  "too_long lstr rstr = (length lstr + length rstr > 70 \<or> length lstr > 40 \<or> length rstr > 40)"

text \<open>The loop of the \<open>lst\<close> case of \<open>spprint\<close> over the chain \<open>cur->r\<close>.\<close>

fun lst_items :: "Node \<Rightarrow> string" where
  "lst_items Null = []"
| "lst_items (Node t s l r d lh k) = (if r \<noteq> Null then s @ '','' @ lst_items r else s)"

text \<open>
  \<open>Default_spprint(prevtype, cur, indent)\<close>; \<open>indent\<close> may be a null pointer. The calls
  through \<open>codegen_spprint\<close> are calls of the function itself.
\<close>

fun Default_spprint :: "Nodetype \<Rightarrow> Node \<Rightarrow> string option \<Rightarrow> error + string" where
  "Default_spprint prevtype Null indent = Inr []"
| "Default_spprint prevtype (Node t s l r d lh k) indent =
     bind_err (spprint_parens prevtype t) (\<lambda>parens.
       if t = sum_n \<or> t = prd_n then
         bind_err (Default_spprint t l indent) (\<lambda>lstr.
         bind_err (Default_spprint t r indent) (\<lambda>rstr.
           Inr (s @ ''('' @ lstr @ '','' @ rstr @ '')'')))
       else if t = lst_n then Inr (''('' @ lst_items r @ '')'')
       else
         bind_err (Default_spprint t l indent) (\<lambda>lstr.
         bind_err (Default_spprint t r indent) (\<lambda>rstr.
         bind_err (if t = sub_n then right_is_sum r else Inr False) (\<lambda>wrap_right.
           let comma = spprint_comma prevtype t;
               cr = (case indent of None \<Rightarrow> []
                     | Some ind \<Rightarrow> if too_long lstr rstr then ''\<newline>'' @ ind else [])
           in Inr (if parens then
                     (if wrap_right then ''('' @ lstr @ comma @ cr @ s @ ''('' @ rstr @ ''))''
                      else ''('' @ lstr @ comma @ cr @ s @ rstr @ '')'')
                   else if wrap_right then lstr @ comma @ cr @ s @ ''('' @ rstr @ '')''
                   else lstr @ comma @ cr @ s @ rstr)))))"

text \<open>
  What \<open>show_node\<close> calls: the shared routine \<open>show_symbol\<close> (which ends in the back
  end's hook), \<open>codegen_begin_func\<close> and \<open>codegen_end_func\<close>, the query
  \<open>is_sum_scalar\<close> and the set query \<open>setelements\<close>. \<open>PYTHON_show_node\<close> is the text
  of \<open>Default_show_node\<close> with another power operator and another line-break string,
  so these two are fields as well.
\<close>

record node_hooks =
  show_symbol :: "string \<Rightarrow> string list \<Rightarrow> string list \<Rightarrow> string list \<Rightarrow> Context \<Rightarrow> error + string"
  codegen_begin_func :: "string \<Rightarrow> string option \<Rightarrow> string"
  codegen_end_func :: string
  sum_scalar :: bool
  elements_of :: "string \<Rightarrow> string list"
  pow_op :: string
  break_text :: string

definition Default_begin_func :: "string \<Rightarrow> string option \<Rightarrow> string" where
  "Default_begin_func func arg =
     (case arg of Some a \<Rightarrow> func @ ''('' @ a @ '','' | None \<Rightarrow> func @ ''('')"

definition Default_end_func :: string where
  "Default_end_func = '')''"

fun map_err :: "('a \<Rightarrow> error + 'b) \<Rightarrow> 'a list \<Rightarrow> error + 'b list" where
  "map_err f [] = Inr []"
| "map_err f (x # xs) = bind_err (f x) (\<lambda>y. bind_err (map_err f xs) (\<lambda>ys. Inr (y # ys)))"

text \<open>
  The text that the scalar sum loop adds for the rendered terms \<open>rstrs\<close>; \<open>thisop\<close> is
  \<open>" "\<close> for the first term and \<open>op\<close> afterwards.
\<close>

fun scalar_terms :: "string \<Rightarrow> string \<Rightarrow> string \<Rightarrow> string \<Rightarrow> string list \<Rightarrow> string" where
  "scalar_terms thisop op lpar rpar [] = []"
| "scalar_terms thisop op lpar rpar (rstr # rest) =
     ''\<newline>      '' @ thisop @ lpar @ rstr @ rpar @ scalar_terms op op lpar rpar rest"

text \<open>
  \<open>Default_show_node(prevtype, cur, setlist, sublist)\<close>. The calls through
  \<open>codegen_show_node\<close> are calls of the function itself.
\<close>

fun show_node :: "node_hooks \<Rightarrow> Nodetype \<Rightarrow> Node \<Rightarrow> string list \<Rightarrow> string list \<Rightarrow> error + string" where
  "show_node h prevtype Null setlist sublist = Inr []"
| "show_node h prevtype (Node t s l r d lh k) setlist sublist =
     bind_err (show_node_parens prevtype t) (\<lambda>parens.
       if t = nam_n then show_symbol h s d setlist sublist \<lparr>lhs = lh, dt = k\<rparr>
       else if t = lag_n \<or> t = led_n then show_node h t r setlist sublist
       else if t = dom_n then show_node h t l setlist sublist
       else if t = lst_n then Inl (Fault ''Unexpected lst state in show_node'')
       else if t = sum_n \<or> t = prd_n then
         (case l of
            Null \<Rightarrow> Inl (NullDeref ''cur->l'')
          | Node lt lname ll lr ld llh lk \<Rightarrow>
              if sum_scalar h then
                bind_err (map_err (\<lambda>ele. show_node h t r (setlist @ [lname]) (sublist @ [ele]))
                            (elements_of h lname)) (\<lambda>rstrs.
                  Inr (''('' @ scalar_terms '' '' (if t = prd_n then ''*'' else ''+'')
                                 (if t = prd_n then ''('' else []) (if t = prd_n then '')'' else []) rstrs
                       @ '')''))
              else
                bind_err (show_node h t r (setlist @ [lname]) (sublist @ [''*''])) (\<lambda>rstr.
                  Inr (codegen_begin_func h s (Some lname) @ rstr @ codegen_end_func h)))
       else
         bind_err (if t = log_n \<or> t = exp_n then Inr (codegen_begin_func h s None)
                   else show_node h t l setlist sublist) (\<lambda>lstr.
         bind_err (show_node h t r setlist sublist) (\<lambda>rstr.
         bind_err (if t = sub_n then right_is_sum r else Inr False) (\<lambda>wrap_right.
           let isfunc = (t = log_n \<or> t = exp_n);
               endfunc = (if isfunc then codegen_end_func h else []);
               op = (if isfunc then [] else if t = pow_n then pow_op h else s);
               cr = (if too_long lstr rstr then break_text h else []);
               lpar = (if parens \<and> \<not> isfunc then ''('' else []);
               rpar = (if parens \<and> \<not> isfunc then '')'' else [])
           in Inr (if wrap_right then lpar @ lstr @ cr @ op @ ''('' @ rstr @ '')'' @ rpar @ endfunc
                   else lpar @ lstr @ cr @ op @ rstr @ rpar @ endfunc)))))"

definition default_node_hooks :: "options \<Rightarrow> env
    \<Rightarrow> (string \<Rightarrow> string list \<Rightarrow> string list \<Rightarrow> string list \<Rightarrow> Context \<Rightarrow> error + string)
    \<Rightarrow> node_hooks" where
  "default_node_hooks opts env sym_hook =
     \<lparr>show_symbol = sym_hook, codegen_begin_func = Default_begin_func,
      codegen_end_func = Default_end_func, sum_scalar = is_sum_scalar opts,
      elements_of = setelements env, pow_op = ''^'', break_text = '' \<newline>        ''\<rparr>"

definition Default_show_node :: "options \<Rightarrow> env
    \<Rightarrow> (string \<Rightarrow> string list \<Rightarrow> string list \<Rightarrow> string list \<Rightarrow> Context \<Rightarrow> error + string)
    \<Rightarrow> Nodetype \<Rightarrow> Node \<Rightarrow> string list \<Rightarrow> string list \<Rightarrow> error + string" where
  "Default_show_node opts env sym_hook = show_node (default_node_hooks opts env sym_hook)"

subsection \<open>\<open>show_eq\<close>\<close>

text \<open>
  What \<open>show_eq\<close> calls. \<open>codegen_begin_eqn\<close> and \<open>codegen_end_eqn\<close> only write to the
  code stream, so each is the text it writes; \<open>codegen_wrap_write\<close> yields its chunks
  and the fatal error it ended in, if any.
\<close>

record eqn_hooks =
  codegen_show_node :: "Nodetype \<Rightarrow> Node \<Rightarrow> string list \<Rightarrow> string list \<Rightarrow> error + string"
  codegen_begin_eqn :: "equation \<Rightarrow> string"
  codegen_end_eqn :: "equation \<Rightarrow> string"
  codegen_wrap_write :: "string \<Rightarrow> bool \<Rightarrow> bool \<Rightarrow> chunk list \<times> error option"

definition Default_begin_eqn :: "equation \<Rightarrow> string" where
  "Default_begin_eqn eq = []"

definition Default_end_eqn :: "equation \<Rightarrow> string" where
  "Default_end_eqn eq = '' ;\<newline>\<newline>''"

text \<open>The pieces of a text between its newline characters; there is always one.\<close>

fun split_nl :: "string \<Rightarrow> string list" where
  "split_nl [] = [[]]"
| "split_nl (c # cs) =
     (case split_nl cs of
        [] \<Rightarrow> [[c]]
      | l # ls \<Rightarrow> if c = CHR 0x0A then [] # l # ls else (c # l) # ls)"

text \<open>
  The loop \<open>for (head = all; (tail = strchr(head, '\n')); head = tail)\<close> and the call
  after it: every piece but the last goes to \<open>wrap_write(head, 1, 0)\<close>, the last to
  \<open>wrap_write(head, 0, 0)\<close>.
\<close>

fun wrap_lines :: "(string \<Rightarrow> bool \<Rightarrow> bool \<Rightarrow> chunk list \<times> error option) \<Rightarrow> string list
    \<Rightarrow> chunk list \<times> error option" where
  "wrap_lines ww [] = ([], None)"
| "wrap_lines ww [head] = ww head False False"
| "wrap_lines ww (head # rest) =
     (let (out, err) = ww head True False
      in if err \<noteq> None then (out, err)
         else (let (out2, err2) = wrap_lines ww rest in (out @ out2, err2)))"

text \<open>The text \<open>all\<close> that \<open>show_eq\<close> assembles from the two rendered sides.\<close>

definition eqn_text :: "options \<Rightarrow> string \<Rightarrow> string \<Rightarrow> string" where
  "eqn_text opts lstr rstr =
     (if is_eqn_normalized opts then lstr @ '' - ('' @ rstr @ '')'' else lstr @ '' = '' @ rstr)"

text \<open>
  \<open>Default_show_eq(eq, setlist, sublist)\<close>: the text written to the code stream and the
  fatal error, if any. \<open>PYTHON_show_eq\<close> is the same text.
\<close>

definition Default_show_eq :: "options \<Rightarrow> eqn_hooks \<Rightarrow> equation \<Rightarrow> string list \<Rightarrow> string list
    \<Rightarrow> string \<times> error option" where
  "Default_show_eq opts h eq setlist sublist =
     (case codegen_show_node h nul_n (getlhs eq) setlist sublist of
        Inl e \<Rightarrow> ([], Some e)
      | Inr lstr \<Rightarrow>
     (case codegen_show_node h nul_n (getrhs eq) setlist sublist of
        Inl e \<Rightarrow> ([], Some e)
      | Inr rstr \<Rightarrow>
          let all = eqn_text opts lstr rstr;
              begun = codegen_begin_eqn h eq
          in if get_line_length opts = 0 then (begun @ all @ codegen_end_eqn h eq, None)
             else if length all \<le> get_line_length opts
             then (begun @ all @ codegen_end_eqn h eq, None)
             else
               (let (out, err) = wrap_lines (codegen_wrap_write h) (split_nl all)
                in if err \<noteq> None then (begun @ chunks_text out, err)
                   else (begun @ chunks_text out @ codegen_end_eqn h eq, None))))"

definition default_eqn_hooks :: "options \<Rightarrow> env
    \<Rightarrow> (string \<Rightarrow> string list \<Rightarrow> string list \<Rightarrow> string list \<Rightarrow> Context \<Rightarrow> error + string)
    \<Rightarrow> eqn_hooks" where
  "default_eqn_hooks opts env sym_hook =
     \<lparr>codegen_show_node = Default_show_node opts env sym_hook,
      codegen_begin_eqn = Default_begin_eqn, codegen_end_eqn = Default_end_eqn,
      codegen_wrap_write = Default_wrap_write (get_line_length opts)\<rparr>"

subsection \<open>The default back end as the driver sees it\<close>

text \<open>
  The hooks that \<open>Default_setup\<close> installs, on a state that is the text of the code
  stream: \<open>begin_file\<close>, \<open>declare\<close>, \<open>begin_block\<close> and \<open>end_file\<close> do nothing, and
  \<open>show_eq\<close> writes the equation. \<open>Default_setup\<close> installs no \<open>show_symbol\<close>; the one of
  the chosen language is the parameter \<open>sym_hook\<close>.
\<close>

definition default_codegen :: "options \<Rightarrow> env
    \<Rightarrow> (string \<Rightarrow> string list \<Rightarrow> string list \<Rightarrow> string list \<Rightarrow> Context \<Rightarrow> error + string)
    \<Rightarrow> string codegen" where
  "default_codegen opts env sym_hook =
     \<lparr>codegen_begin_file = (\<lambda>basename s. (s, None)),
      codegen_declare = (\<lambda>symb s. (s, None)),
      codegen_begin_block = (\<lambda>eq s. (s, None)),
      codegen_show_eq = (\<lambda>eq setlist sublist s.
         let (written, err) = Default_show_eq opts (default_eqn_hooks opts env sym_hook) eq setlist sublist
         in (s @ written, err)),
      codegen_end_file = (\<lambda>s. (s, None))\<rparr>"

section \<open>The simulation-code back end (python2.c)\<close>

subsection \<open>MSGPROC vectors\<close>

definition NUL :: nat where "NUL = 0"
definition Z1L :: nat where "Z1L = 1"
definition ZEL :: nat where "ZEL = 2"
definition J1L :: nat where "J1L = 3"
definition X1L :: nat where "X1L = 4"
definition Z1R :: nat where "Z1R = 5"
definition ZER :: nat where "ZER = 6"
definition YJR :: nat where "YJR = 7"
definition YXR :: nat where "YXR = 8"
definition EXO :: nat where "EXO = 9"
definition EXZ :: nat where "EXZ = 10"
definition PAR :: nat where "PAR = 11"
definition X1R :: nat where "X1R = 12"
definition UNK :: nat where "UNK = 13"

lemmas vec_defs = NUL_def Z1L_def ZEL_def J1L_def X1L_def Z1R_def ZER_def YJR_def
  YXR_def EXO_def EXZ_def PAR_def X1R_def UNK_def

definition PYTHON_ORIGIN :: int where "PYTHON_ORIGIN = 0"

text \<open>The table \<open>vecname\<close> as \<open>PYTHON_begin_file\<close> fills it.\<close>

definition vecname :: "nat \<Rightarrow> string" where
  "vecname i =
     (if i = Z1L then ''z1l'' else if i = ZEL then ''zel'' else if i = J1L then ''j1l''
      else if i = X1L then ''x1l'' else if i = Z1R then ''z1r'' else if i = ZER then ''zer''
      else if i = YJR then ''yjr'' else if i = YXR then ''yxr'' else if i = EXO then ''exo''
      else if i = EXZ then ''exz'' else if i = PAR then ''par'' else if i = X1R then ''x1r''
      else [])"

text \<open>
  \<open>struct vartype_info\<close> and the table \<open>vlist\<close>: per variable type the vector of each of
  the six contexts, in the order left-lag, left-cur, left-lead, right-lag, right-cur,
  right-lead; 0 marks a context the type does not allow.
\<close>

record vartype_info =
  vt_type :: string
  vt_vecid :: "nat list"

definition vlist :: "vartype_info list" where
  "vlist =
     [\<lparr>vt_type = ''end'', vt_vecid = [0, Z1L, 0, 0, Z1R, 0]\<rparr>,
      \<lparr>vt_type = ''ets'', vt_vecid = [0, ZEL, 0, 0, ZER, EXZ]\<rparr>,
      \<lparr>vt_type = ''exo'', vt_vecid = [0, 0, 0, 0, EXO, 0]\<rparr>,
      \<lparr>vt_type = ''cos'', vt_vecid = [0, 0, J1L, 0, YJR, 0]\<rparr>,
      \<lparr>vt_type = ''sta'', vt_vecid = [0, 0, X1L, 0, YXR, 0]\<rparr>,
      \<lparr>vt_type = ''stl'', vt_vecid = [0, X1L, 0, YXR, X1R, 0]\<rparr>,
      \<lparr>vt_type = ''par'', vt_vecid = [0, 0, 0, 0, PAR, 0]\<rparr>]"


subsection \<open>Variables and the back end's state\<close>

datatype oldform = o_unk | o_err | o_none | o_cc | o_cu | o_a | o_g | o_acc | o_gcc
  | o_ag | o_do | o_agcc | o_gdo

text \<open>\<open>struct variable\<close>; the linked list \<open>v_head\<close> is a list of these.\<close>

record variable =
  var_str :: string
  var_type :: string
  var_unit :: string
  vecid :: "nat list"
  vecoff :: "int list"
  stype :: Symboltype
  of_type :: oldform
  of_a :: int
  of_g :: int
  of_c :: int
  of_d :: int
  of_o :: int
  varsnum :: int

text \<open>
  The file-level variables of python2.c, with the text written so far to the two output
  streams \<open>code\<close> and \<open>info\<close>. The text of the side files (varmap, optmap, varinfo,
  vars) is not part of the model; the fatal exits of the routines that write them are.
\<close>

record pystate =
  MSGPROC_block :: int
  MSGPROC_scalar :: int
  MSGPROC_vars :: int
  vecinfo :: "int list"
  v_head :: "variable list"
  code_out :: string
  info_out :: string

definition py_init :: pystate where
  "py_init = \<lparr>MSGPROC_block = 1, MSGPROC_scalar = 1, MSGPROC_vars = 1,
     vecinfo = replicate 14 0, v_head = [], code_out = [], info_out = []\<rparr>"

subsection \<open>\<open>get_msgname\<close>\<close>

text \<open>The search loop over \<open>v_head\<close>, which relies on the list being sorted.\<close>

fun find_variable :: "string \<Rightarrow> variable list \<Rightarrow> error + variable" where
  "find_variable str [] = Inl (Fault ''Name not in variable list in get_msgname'')"
| "find_variable str (v # vs) =
     (let check = strcasecmp str (var_str v) in
      if check = 0 then Inr v
      else if check < 0 then Inl (Fault ''Name not in variable list in get_msgname'')
      else find_variable str vs)"

definition side_text :: "int \<Rightarrow> string" where
  "side_text sel =
     (if sel = 0 then ''LHS in lag()''
      else if sel = 1 then ''LHS without lag() or lead()''
      else if sel = 2 then ''LHS in lead()''
      else if sel = 3 then ''RHS in lag()''
      else if sel = 4 then ''RHS without lag() or lead()''
      else if sel = 5 then ''RHS in lead()''
      else [])"

definition get_msgname :: "env \<Rightarrow> pystate \<Rightarrow> string \<Rightarrow> string list \<Rightarrow> Context \<Rightarrow> error + string" where
  "get_msgname env st str sublist context =
     (if v_head st = [] then Inl (Fault ''Variable list is blank in get_msgname'')
      else bind_err (find_variable str (v_head st)) (\<lambda>v.
        if dt context < - 1 then Inl (MsgError ''lag(lag(var)) cannot be used with msgproc'')
        else if dt context > 1 then Inl (MsgError ''lead(lead(var)) cannot be used with msgproc'')
        else
          let sel = 1 + dt context + (if lhs context then 0 else 3);
              vid = vecid v ! nat sel
          in if vid = 0 then
               Inl (MsgError (''Invalid context for variable '' @ str @ [CHR 0x0A] @ ''   Type '' @ [CHR 0x27]
                      @ var_type v @ [CHR 0x27] @ '' on '' @ side_text sel))
             else Inr (vecname vid @ ''['' @ slprint env (sub_offset env str sublist (vecoff v ! nat sel)) @ '']'')))"

definition PYTHON_show_symbol :: "env \<Rightarrow> pystate \<Rightarrow> string \<Rightarrow> string list \<Rightarrow> Context \<Rightarrow> error + string" where
  "PYTHON_show_symbol env st str sublist context = get_msgname env st str sublist context"

subsection \<open>\<open>PYTHON_declare\<close>: reserving space in the vectors\<close>

text \<open>
  The locals of the allocation loop of \<open>PYTHON_declare\<close>: the counters \<open>vecinfo\<close>, the
  four synchronisation variables \<open>my_*\<close>, and the fields \<open>vecid\<close> and \<open>vecoff\<close> of the
  new variable, filled at index \<open>j\<close> in the \<open>j\<close>-th pass.
\<close>

record alloc =
  a_vecinfo :: "int list"
  my_Z1L :: int
  my_J1L :: int
  my_ZEL :: int
  my_X1L :: int
  a_vecid :: "nat list"
  a_vecoff :: "int list"

definition alloc_init :: "int list \<Rightarrow> alloc" where
  "alloc_init vi = \<lparr>a_vecinfo = vi, my_Z1L = - 1, my_J1L = - 1, my_ZEL = - 1, my_X1L = - 1,
     a_vecid = [], a_vecoff = []\<rparr>"

text \<open>
  The \<open>switch (vecid)\<close> that picks the counter: it yields \<open>start\<close>, \<open>do_inc\<close> and the
  updated \<open>my_*\<close> variables, or the \<open>FAULT\<close> of a follower without its driver.
\<close>

definition sync_switch :: "nat \<Rightarrow> int \<Rightarrow> alloc \<Rightarrow> error + (int \<times> bool \<times> alloc)" where
  "sync_switch vid start a =
     (if vid = Z1L then Inr (start, True, a\<lparr>my_Z1L := start\<rparr>)
      else if vid = Z1R then
        (if my_Z1L a < 0 then Inl (Fault ''Z1R without Z1L'') else Inr (my_Z1L a, False, a))
      else if vid = J1L then Inr (start, True, a\<lparr>my_J1L := start\<rparr>)
      else if vid = YJR then
        (if my_J1L a < 0 then Inl (Fault ''YJR without J1L'') else Inr (my_J1L a, False, a))
      else if vid = ZEL then Inr (start, True, a\<lparr>my_ZEL := start\<rparr>)
      else if vid = ZER \<or> vid = EXZ then
        (if my_ZEL a < 0 then Inl (Fault ''ZER or EXZ without ZEL'') else Inr (my_ZEL a, False, a))
      else if vid = X1L then Inr (start, True, a\<lparr>my_X1L := start\<rparr>)
      else if vid = YXR \<or> vid = X1R then
        (if my_X1L a < 0 then Inl (Fault ''YXR or X1R without X1L'') else Inr (my_X1L a, False, a))
      else Inr (start, True, a))"

text \<open>One pass of the loop \<open>for (j = 0; j < 6; j++)\<close>, for the table entry \<open>vid\<close>.\<close>

definition alloc_step :: "int \<Rightarrow> nat \<Rightarrow> alloc \<Rightarrow> error + alloc" where
  "alloc_step count vid a =
     (if vid = 0 then Inr (a\<lparr>a_vecid := a_vecid a @ [vid], a_vecoff := a_vecoff a @ [0]\<rparr>)
      else if vid \<le> NUL \<or> vid \<ge> UNK then Inl (Fault ''Unrecognized vector id in PYTHON_declare'')
      else bind_err (sync_switch vid (a_vecinfo a ! vid) a) (\<lambda>(start, do_inc, a').
        Inr (a'\<lparr>a_vecid := a_vecid a' @ [vid], a_vecoff := a_vecoff a' @ [start],
                a_vecinfo := (if do_inc then (a_vecinfo a')[vid := a_vecinfo a' ! vid + count]
                              else a_vecinfo a')\<rparr>)))"

fun alloc_loop :: "int \<Rightarrow> nat list \<Rightarrow> alloc \<Rightarrow> error + alloc" where
  "alloc_loop count [] a = Inr a"
| "alloc_loop count (vid # rest) a = bind_err (alloc_step count vid a) (alloc_loop count rest)"

text \<open>The whole loop for one row of \<open>vlist\<close>, from the counters \<open>vi\<close>.\<close>

definition alloc_slots :: "int \<Rightarrow> nat list \<Rightarrow> int list \<Rightarrow> error + alloc" where
  "alloc_slots count row vi = alloc_loop count row (alloc_init vi)"



subsection \<open>\<open>setup_pythonname\<close>\<close>

unbundle bit_operations_syntax

definition setname_regions :: string where "setname_regions = ''regions''"
definition setname_sectors :: string where "setname_sectors = ''sectors''"
definition setname_goods :: string where "setname_goods = ''goods''"

text \<open>The test \<open>strcasecmp(name, s) == 0 || issubset(name, s)\<close>.\<close>

definition is_or_subset :: "env \<Rightarrow> string \<Rightarrow> string \<Rightarrow> bool" where
  "is_or_subset env name s = (strcasecmp name s = 0 \<or> issubset env name s)"

text \<open>The body of the loop over the sets, for the set \<open>name\<close> at position \<open>i\<close>.\<close>

definition pyname_step :: "env \<Rightarrow> string \<Rightarrow> int \<Rightarrow> variable \<times> nat \<Rightarrow> variable \<times> nat" where
  "pyname_step env name i vf =
     (let (v, flags) = vf;
          (v, flags) =
            (if is_or_subset env name setname_regions then
               (let v = v\<lparr>of_c := i\<rparr>;
                    v = (if strcasecmp name ''orig'' = 0 \<or> strcasecmp name ''currency'' = 0
                         then v\<lparr>of_o := i\<rparr> else v);
                    v = (if strcasecmp name ''dest'' = 0 \<or> strcasecmp name ''owner'' = 0
                         then v\<lparr>of_d := i\<rparr> else v)
                in (v, flags OR 1))
             else (v, flags));
          (v, flags) =
            (if is_or_subset env name setname_sectors
             then (v\<lparr>of_a := i\<rparr>, flags OR (if flags AND 2 \<noteq> 0 then 255 else 2))
             else (v, flags));
          (v, flags) =
            (if is_or_subset env name setname_goods
             then (v\<lparr>of_g := i\<rparr>, flags OR (if flags AND 4 \<noteq> 0 then 255 else 4))
             else (v, flags))
      in (v, flags))"

fun pyname_loop :: "env \<Rightarrow> string list \<Rightarrow> int \<Rightarrow> variable \<times> nat \<Rightarrow> variable \<times> nat" where
  "pyname_loop env [] i vf = vf"
| "pyname_loop env (name # rest) i vf = pyname_loop env rest (i + 1) (pyname_step env name i vf)"

definition oldform_of_flags :: "nat \<Rightarrow> oldform" where
  "oldform_of_flags flags =
     (if flags = 1 then o_cc else if flags = 2 then o_a else if flags = 4 then o_g
      else if flags = 3 then o_acc else if flags = 5 then o_gcc else if flags = 7 then o_agcc
      else o_err)"

definition setup_pythonname :: "env \<Rightarrow> variable \<Rightarrow> Symboltype \<Rightarrow> string list \<Rightarrow> error + variable" where
  "setup_pythonname env v0 t sets =
     (let v = v0\<lparr>stype := t, of_type := o_unk, of_a := - 1, of_g := - 1, of_c := - 1,
                  of_o := - 1, of_d := - 1\<rparr>
      in if sets = [] then Inr (v\<lparr>of_type := o_none\<rparr>)
         else
           let (v, flags) = pyname_loop env sets 0 (v, 0);
               v = v\<lparr>of_type := oldform_of_flags flags\<rparr>;
               v = (if of_o v \<ge> 0 \<and> of_d v \<ge> 0
                    then (if of_g v < 0 then v\<lparr>of_type := o_do\<rparr> else v\<lparr>of_type := o_gdo\<rparr>)
                    else v);
               v = (if strcasecmp (var_str v) ''REXC'' = 0 \<or> strcasecmp (var_str v) ''EXCH'' = 0
                    then v\<lparr>of_type := o_cu\<rparr> else v)
           in if of_type v = o_err \<or> of_type v = o_unk
              then Inl (MsgError (''Variable has unexpected type: '' @ var_str v))
              else Inr v)"

subsection \<open>\<open>PYTHON_declare\<close>: the variable's type and unit\<close>

text \<open>
  The loop over \<open>vlist\<close> that finds the row of the symbol: \<open>i\<close> is the index of the row
  at the head of the remaining table, and the pair is \<open>(found, vi)\<close>.
\<close>

fun find_vartype :: "env \<Rightarrow> symbol \<Rightarrow> vartype_info list \<Rightarrow> nat \<Rightarrow> bool \<times> nat \<Rightarrow> error + bool \<times> nat" where
  "find_vartype env symb [] i fv = Inr fv"
| "find_vartype env symb (vt # rest) i fv =
     (if vt_type vt = [] then Inl (Fault ''Corrupted vlist in Python_declare'')
      else if istype symb par_t \<and> vt_type vt = ''par'' then Inr (True, i)
      else if istype symb var_t \<and> ismember env (vt_type vt) (symattrib symb) then
        (if fst fv then Inl (MsgError (''Multiple variable types for variable: '' @ symname symb))
         else find_vartype env symb rest (i + 1) (True, i))
      else find_vartype env symb rest (i + 1) fv)"

definition units :: "string list" where
  "units = [''del'', ''pct'', ''gdp'', ''usgdp'', ''cent'', ''dollar'', ''gwh'', ''gwhgdp'', ''idx'',
     ''nomusdbillion'', ''realusdbillion'', ''btu'', ''mmt'', ''btugdp'', ''mmtgdp'', ''btuusgdp'',
     ''mmtusgdp'']"

fun first_unit :: "env \<Rightarrow> string list \<Rightarrow> string list \<Rightarrow> string option" where
  "first_unit env [] attlist = None"
| "first_unit env (u # us) attlist =
     (if ismember env u attlist then Some u else first_unit env us attlist)"

definition find_unit :: "env \<Rightarrow> symbol \<Rightarrow> error + string" where
  "find_unit env symb =
     (if istype symb var_t then
        (case first_unit env units (symattrib symb) of
           Some u \<Rightarrow> Inr u
         | None \<Rightarrow> Inl (MsgError (''No units given for variable '' @ symname symb
                        @ '' with attributes '' @ slprint env (symattrib symb))))
      else Inr [])"

subsection \<open>The side files: \<open>write_vars\<close>, \<open>write_pythonname\<close>, \<open>write_varmap\<close>\<close>

text \<open>
  \<open>write_vars\<close>: the region check, then one line per tuple of the variable's domain,
  each taking the next number \<open>MSGPROC_vars\<close>.
\<close>

definition write_vars :: "env \<Rightarrow> variable \<Rightarrow> string list \<Rightarrow> pystate \<Rightarrow> error + variable \<times> pystate" where
  "write_vars env v setlist st =
     (let region_index = (if of_d v \<ge> 0 then of_d v else of_c v)
      in if region_index \<ge> int (length setlist)
         then Inl (MsgError (''internal error when determining region of variable '' @ var_str v))
         else Inr (v\<lparr>varsnum := MSGPROC_vars st\<rparr>,
                   st\<lparr>MSGPROC_vars := MSGPROC_vars st + int (length (cart (setelements env) setlist))\<rparr>))"

text \<open>\<open>subs[i]\<close> where the position \<open>i\<close> was found, a null pointer otherwise.\<close>

definition nth_sub :: "string list \<Rightarrow> int \<Rightarrow> string option" where
  "nth_sub s i = (if 0 \<le> i then Some (s ! nat i) else None)"

definition obsolete_good :: "string option \<Rightarrow> error option" where
  "obsolete_good good =
     (case good of None \<Rightarrow> None
      | Some g \<Rightarrow> if strcasecmp g ''aRAW'' = 0 then Some (Fault ''Saw obsolete reference to aRAW'')
                  else None)"

text \<open>The fatal exits of \<open>write_pythonname\<close> for the tuple \<open>s\<close>.\<close>

definition write_pythonname :: "variable \<Rightarrow> string list \<Rightarrow> error option" where
  "write_pythonname v s =
     (if stype v = par_t then None
      else if of_type v = o_acc \<or> of_type v = o_gcc \<or> of_type v = o_agcc then
        (case nth_sub s (of_a v) of
           None \<Rightarrow> obsolete_good (nth_sub s (of_g v))
         | Some agent \<Rightarrow>
             if strcasecmp agent ''aRAW'' = 0 then Some (Fault ''Saw obsolete reference to aRAW'')
             else if strcasecmp agent ''HH'' = 0 then Some (Fault ''Saw obsolete reference to HH'')
             else obsolete_good (nth_sub s (of_g v)))
      else if of_type v = o_do \<or> of_type v = o_gdo then
        (if nth_sub s (of_d v) = None \<or> nth_sub s (of_o v) = None
         then Some (Fault ''Incorrect region subscripts in write_pythonname'') else None)
      else None)"

fun first_error :: "('a \<Rightarrow> error option) \<Rightarrow> 'a list \<Rightarrow> error option" where
  "first_error f [] = None"
| "first_error f (x # xs) = (case f x of Some e \<Rightarrow> Some e | None \<Rightarrow> first_error f xs)"

text \<open>The context that \<open>write_varmap\<close> builds for the usage \<open>j\<close>.\<close>

definition context_of :: "nat \<Rightarrow> Context" where
  "context_of j = \<lparr>lhs = (j < 3), dt = (if j = 0 \<or> j = 3 then - 1 else if j = 2 \<or> j = 5 then 1 else 0)\<rparr>"

definition varmap_line :: "env \<Rightarrow> pystate \<Rightarrow> variable \<Rightarrow> nat \<Rightarrow> string list \<Rightarrow> error option" where
  "varmap_line env st v j cur =
     (case get_msgname env st (var_str v) cur (context_of j) of
        Inl e \<Rightarrow> Some e
      | Inr name \<Rightarrow> write_pythonname v cur)"

definition write_varmap :: "env \<Rightarrow> pystate \<Rightarrow> variable \<Rightarrow> string list \<Rightarrow> error option" where
  "write_varmap env st v setlist =
     first_error (\<lambda>j. if vecid v ! j = 0 then None
                      else first_error (varmap_line env st v j) (cart (setelements env) setlist))
       [0..<6]"

subsection \<open>\<open>PYTHON_declare\<close>: the sorted registry\<close>

text \<open>
  Case 3 and case 4 of the insertion: \<open>cur\<close> is the entry already passed, the list is
  what follows it; the result is the list from \<open>cur\<close> on.
\<close>

fun insert_after :: "variable \<Rightarrow> variable \<Rightarrow> variable list \<Rightarrow> error + variable list" where
  "insert_after newvar cur [] = Inr [cur, newvar]"
| "insert_after newvar cur (nxt # rest) =
     (let check = strcasecmp (var_str newvar) (var_str nxt) in
      if check = 0 then Inl (Fault ''Multiple definitions of variable in PYTHON_declare'')
      else if check < 0 then Inr (cur # newvar # nxt # rest)
      else bind_err (insert_after newvar nxt rest) (\<lambda>l. Inr (cur # l)))"

definition insert_variable :: "variable \<Rightarrow> variable list \<Rightarrow> error + variable list" where
  "insert_variable newvar vh =
     (case vh of
        [] \<Rightarrow> Inr [newvar]
      | cur # rest \<Rightarrow>
          (let check = strcasecmp (var_str newvar) (var_str cur) in
           if check = 0 then Inl (Fault ''Multiple definitions of variable in PYTHON_declare'')
           else if check < 0 then Inr (newvar # vh)
           else insert_after newvar cur rest))"

subsection \<open>\<open>PYTHON_declare\<close>\<close>

text \<open>The freshly allocated \<open>newvar\<close>: only \<open>str\<close> is set, the rest is not initialised.\<close>

definition new_variable :: "string \<Rightarrow> variable" where
  "new_variable name = \<lparr>var_str = name, var_type = undefined, var_unit = undefined,
     vecid = undefined, vecoff = undefined, stype = undefined, of_type = undefined,
     of_a = undefined, of_g = undefined, of_c = undefined, of_d = undefined, of_o = undefined,
     varsnum = undefined\<rparr>"

text \<open>
  \<open>PYTHON_declare\<close> in its phases. First the calls of \<open>setup_pythonname\<close>.
\<close>

definition declare_newvar :: "env \<Rightarrow> symbol \<Rightarrow> error + variable" where
  "declare_newvar env symb =
     (if istype symb par_t
      then setup_pythonname env (new_variable (symname symb)) par_t (symvalue symb)
      else if istype symb var_t
      then setup_pythonname env (new_variable (symname symb)) var_t (symvalue symb)
      else Inr (new_variable (symname symb)))"

text \<open>The row \<open>vi\<close> of \<open>vlist\<close> for the symbol, and the two checks of \<open>found\<close>.\<close>

definition declare_type :: "env \<Rightarrow> symbol \<Rightarrow> error + nat" where
  "declare_type env symb =
     bind_err (find_vartype env symb vlist 0 (False, 0)) (\<lambda>(found, vi).
       if istype symb var_t \<and> \<not> found
       then Inl (MsgError (''No type declared for variable '' @ symname symb))
       else if istype symb par_t \<and> \<not> found
       then Inl (Fault ''Failed to find parameter in vlist in PYTHON_declare'')
       else Inr vi)"

text \<open>
  Everything up to the insertion into the list: the new variable with its type, unit,
  vectors and offsets, and the state with the counters advanced.
\<close>

definition declare_variable :: "env \<Rightarrow> symbol \<Rightarrow> pystate \<Rightarrow> error + variable \<times> pystate" where
  "declare_variable env symb st =
     bind_err (declare_newvar env symb) (\<lambda>nv.
     bind_err (declare_type env symb) (\<lambda>vi.
     bind_err (find_unit env symb) (\<lambda>u.
     bind_err (alloc_slots (symsize symb) (vt_vecid (vlist ! vi)) (vecinfo st)) (\<lambda>a.
       let nv1 = nv\<lparr>var_type := vt_type (vlist ! vi), var_unit := u,
                    vecid := a_vecid a, vecoff := a_vecoff a\<rparr>;
           st1 = st\<lparr>vecinfo := a_vecinfo a\<rparr>
       in if istype symb var_t then write_vars env nv1 (symvalue symb) st1
          else Inr (nv1, st1)))))"

definition PYTHON_declare :: "env \<Rightarrow> symbol \<Rightarrow> pystate \<Rightarrow> error + pystate" where
  "PYTHON_declare env symb st =
     (if istype symb set_t then Inr st
      else if \<not> isident symb then Inl (Fault ''Invalid symbol type passed to PYTHON_declare'')
      else if symsize symb < 1 then Inl (Fault ''Symbol has no element count in PYTHON_declare'')
      else
        bind_err (declare_variable env symb st) (\<lambda>(nv2, st2).
        bind_err (insert_variable nv2 (v_head st2)) (\<lambda>vh.
          let st3 = st2\<lparr>v_head := vh\<rparr>
          in case write_varmap env st3 nv2 (symvalue symb) of
               Some e \<Rightarrow> Inl e
             | None \<Rightarrow> Inr st3)))"

subsection \<open>\<open>PYTHON_begin_file\<close>, \<open>PYTHON_begin_block\<close> and \<open>PYTHON_end_file\<close>\<close>

definition side_files :: "string \<Rightarrow> string list" where
  "side_files basename = [basename @ ''_varmap.csv'', basename @ ''_optmap.csv'',
     basename @ ''_varinfo.csv'', basename @ ''_vars.csv'']"

definition py_header :: string where
  "py_header = ''import numpy as np\<newline>from math import exp\<newline>from math import log\<newline>\<newline>\<newline>''
     @ ''def msgproc(x1l:np.ndarray, j1l:np.ndarray, zel:np.ndarray, z1l:np.ndarray, ''
     @ ''x1r:np.ndarray, j1r:np.ndarray, z1r:np.ndarray, zer:np.ndarray, yjr:np.ndarray, ''
     @ ''yxr:np.ndarray, exo:np.ndarray, exz:np.ndarray, par:np.ndarray):\<newline>\<newline>''"

definition PYTHON_begin_file :: "env \<Rightarrow> string \<Rightarrow> pystate \<Rightarrow> error + pystate" where
  "PYTHON_begin_file env basename st =
     (case first_error (\<lambda>fname. if can_create env fname then None
                                  else Some (MsgError (''Could not create file: '' @ fname)))
             (side_files basename) of
        Some e \<Rightarrow> Inl e
      | None \<Rightarrow> Inr (st\<lparr>vecinfo := replicate (UNK + 1) PYTHON_ORIGIN,
                          code_out := code_out st @ py_header\<rparr>))"

definition PYTHON_begin_block :: "env \<Rightarrow> equation \<Rightarrow> pystate \<Rightarrow> error + pystate" where
  "PYTHON_begin_block env eq st =
     (let nblk = MSGPROC_block st;
          nstart = MSGPROC_scalar st;
          nscalar = eqncount eq;
          nend = nstart + nscalar - 1;
          st1 = st\<lparr>MSGPROC_block := nblk + 1, MSGPROC_scalar := nend + 1,
                   code_out := code_out st @ ''    # Equation block '' @ show_int nblk @ ''\<newline>''\<rparr>
      in if \<not> islvalue eq then Inl (MsgError ''LHS of an equation is not a variable'')
         else Inr (st1\<lparr>code_out := code_out st1
                @ (if eqnsets eq \<noteq> []
                   then ''    #    Defined over sets ('' @ slprint env (eqnsets eq) @ '')\<newline>'' else [])
                @ (if nscalar \<noteq> 0
                   then ''    #    Scalar equations '' @ show_int nstart @ ''-'' @ show_int nend
                        @ '' ('' @ show_int nscalar @ '' total)\<newline>\<newline>''
                   else ''    #    Contains undeclared symbols\<newline>'')\<rparr>))"

text \<open>The vectors whose length \<open>PYTHON_end_file\<close> lists: all but the followers.\<close>

definition listed_vectors :: "nat list" where
  "listed_vectors = filter (\<lambda>i. \<not> (i = Z1R \<or> i = YJR \<or> i = ZER \<or> i = EXZ \<or> i = YXR \<or> i = X1R))
                      [NUL + 1 ..< UNK]"

definition vector_lengths :: "pystate \<Rightarrow> string" where
  "vector_lengths st = concat (map (\<lambda>i. ''   '' @ vecname i @ '' has ''
       @ show_int (vecinfo st ! i - PYTHON_ORIGIN) @ '' elements\<newline>'') listed_vectors)"

text \<open>The three counts of \<open>PYTHON_end_file\<close>.\<close>

definition ecount :: "pystate \<Rightarrow> int" where
  "ecount st = MSGPROC_scalar st - 1"

definition vcount :: "pystate \<Rightarrow> int" where
  "vcount st = vecinfo st ! Z1L + vecinfo st ! ZEL + vecinfo st ! J1L + vecinfo st ! X1L
                 - 4 * PYTHON_ORIGIN"

definition ucount :: "env \<Rightarrow> symtable \<Rightarrow> int" where
  "ucount env tab = sum_list (map symsize
       (filter (\<lambda>cur. ismember env ''end'' (symattrib cur) \<and> \<not> isused cur) (tab var_t)))"

definition count_mismatch :: string where
  "count_mismatch = ''Counts of equations and endogenous variables do not match.''"

text \<open>
  \<open>PYTHON_end_file\<close> returns the state with everything it wrote, and the fatal error if
  it ended in one.
\<close>

definition PYTHON_end_file :: "env \<Rightarrow> symtable \<Rightarrow> pystate \<Rightarrow> pystate \<times> error option" where
  "PYTHON_end_file env tab st =
     (let st1 = st\<lparr>code_out := code_out st @ ''\<newline># END OF MSGPROC function declaration\<newline>'',
                   info_out := info_out st @ ''\<newline>Length of MSGPROC Vectors:\<newline>\<newline>''
                     @ vector_lengths st @ ''\<newline>''
                     @ ''Equation Count: '' @ show_int (ecount st) @ ''\<newline>''
                     @ ''Endogenous Variables, Used:   '' @ show_int (vcount st - ucount env tab) @ ''\<newline>''
                     @ ''Endogenous Variables, Total:  '' @ show_int (vcount st) @ ''\<newline>''\<rparr>
      in if ecount st \<noteq> vcount st - ucount env tab
         then (st1\<lparr>info_out := info_out st1 @ ''\<newline>Fatal Error:\<newline>   '' @ count_mismatch @ ''\<newline>''\<rparr>,
               Some (MsgError count_mismatch))
         else (st1, None))"

subsection \<open>Rendering equations: \<open>PYTHON_show_node\<close> and \<open>PYTHON_show_eq\<close>\<close>

definition python_node_hooks :: "options \<Rightarrow> env \<Rightarrow> pystate \<Rightarrow> node_hooks" where
  "python_node_hooks opts env st =
     \<lparr>show_symbol = (\<lambda>str domain setlist sublist context.
        PYTHON_show_symbol env st str (symbol_subs env domain setlist sublist) context),
      codegen_begin_func = Default_begin_func, codegen_end_func = Default_end_func,
      sum_scalar = is_sum_scalar opts, elements_of = setelements env,
      pow_op = ''**'', break_text = '' '' @ [CHR 0x5C] @ ''\<newline>        ''\<rparr>"

definition PYTHON_show_node :: "options \<Rightarrow> env \<Rightarrow> pystate \<Rightarrow> Nodetype \<Rightarrow> Node \<Rightarrow> string list
    \<Rightarrow> string list \<Rightarrow> error + string" where
  "PYTHON_show_node opts env st = show_node (python_node_hooks opts env st)"

definition PYTHON_begin_eqn :: "equation \<Rightarrow> string" where
  "PYTHON_begin_eqn eq = ''    ''"

definition PYTHON_end_eqn :: "equation \<Rightarrow> string" where
  "PYTHON_end_eqn eq = ''\<newline>\<newline>''"

definition python_eqn_hooks :: "options \<Rightarrow> env \<Rightarrow> pystate \<Rightarrow> eqn_hooks" where
  "python_eqn_hooks opts env st =
     \<lparr>codegen_show_node = PYTHON_show_node opts env st,
      codegen_begin_eqn = PYTHON_begin_eqn, codegen_end_eqn = PYTHON_end_eqn,
      codegen_wrap_write = PYTHON_wrap_write (get_line_length opts)\<rparr>"

definition PYTHON_show_eq :: "options \<Rightarrow> env \<Rightarrow> equation \<Rightarrow> string list \<Rightarrow> string list \<Rightarrow> pystate
    \<Rightarrow> pystate \<times> error option" where
  "PYTHON_show_eq opts env eq setlist sublist st =
     (let (written, err) = Default_show_eq opts (python_eqn_hooks opts env st) eq setlist sublist
      in (st\<lparr>code_out := code_out st @ written\<rparr>, err))"

subsection \<open>The back end as the driver sees it\<close>

text \<open>The hooks that \<open>Python_setup\<close> installs, and \<open>PYTHON_write_file\<close>.\<close>

definition python_codegen :: "options \<Rightarrow> env \<Rightarrow> symtable \<Rightarrow> pystate codegen" where
  "python_codegen opts env tab =
     \<lparr>codegen_begin_file = (\<lambda>basename. hook (PYTHON_begin_file env basename)),
      codegen_declare = (\<lambda>symb. hook (PYTHON_declare env symb)),
      codegen_begin_block = (\<lambda>eq. hook (PYTHON_begin_block env eq)),
      codegen_show_eq = PYTHON_show_eq opts env,
      codegen_end_file = PYTHON_end_file env tab\<rparr>"

definition PYTHON_write_file :: "options \<Rightarrow> env \<Rightarrow> symtable \<Rightarrow> equation list \<Rightarrow> string \<Rightarrow> pystate run" where
  "PYTHON_write_file opts env tab eqns basename =
     write_file True opts env (python_codegen opts env tab) tab eqns basename py_init"

section \<open>Invariants and predicates of the verification\<close>

subsection \<open>The allocation loop\<close>








subsection \<open>The registry\<close>

text \<open>
  The order of the list \<open>v_head\<close>: each name is before the names after it in the sense
  of \<open>strcasecmp\<close>. Two names are the same up to case when \<open>strcasecmp\<close> gives 0 for
  them.
\<close>

definition name_before :: "variable \<Rightarrow> variable \<Rightarrow> bool" where
  "name_before a b \<longleftrightarrow> strcasecmp (var_str a) (var_str b) < 0"

definition registry_sorted :: "variable list \<Rightarrow> bool" where
  "registry_sorted vh \<longleftrightarrow> sorted_wrt name_before vh"

definition names_unique :: "string list \<Rightarrow> bool" where
  "names_unique ns \<longleftrightarrow> (\<forall>i j. i < j \<and> j < length ns \<longrightarrow> strcasecmp (ns ! i) (ns ! j) \<noteq> 0)"

text \<open>The symbols of a model that \<open>PYTHON_declare\<close> enters in the registry, in the order
  in which the driver declares them: all but the sets.\<close>

definition declared :: "symtable \<Rightarrow> symbol list" where
  "declared tab = filter (\<lambda>symb. \<not> istype symb set_t) (tab set_t @ tab par_t @ tab var_t)"

subsection \<open>Traces of the driver\<close>

text \<open>The calls of the declaration phase of a run, in order, when none of them fails.\<close>

definition decl_trace :: "string \<Rightarrow> symtable \<Rightarrow> event list" where
  "decl_trace basename tab = EvBeginFile basename # map EvDeclare (tab set_t @ tab par_t @ tab var_t)"

text \<open>The calls that process an equation.\<close>

fun is_eqn_event :: "event \<Rightarrow> bool" where
  "is_eqn_event (EvBeginBlock eq) = True"
| "is_eqn_event (EvShowEq eq setlist sublist) = True"
| "is_eqn_event e = False"

fun is_begin_block :: "event \<Rightarrow> bool" where
  "is_begin_block (EvBeginBlock eq) = True"
| "is_begin_block e = False"

fun is_show_eq :: "event \<Rightarrow> bool" where
  "is_show_eq (EvShowEq eq setlist sublist) = True"
| "is_show_eq e = False"

text \<open>The equations the loop of \<open>Default_write_file\<close> does not skip.\<close>

definition kept :: "equation \<Rightarrow> bool" where
  "kept eq \<longleftrightarrow> \<not> (hasundec eq \<or> \<not> istimeok eq)"

text \<open>The calls for one equation when none of them fails.\<close>

definition block_events :: "options \<Rightarrow> env \<Rightarrow> equation \<Rightarrow> event list" where
  "block_events opts env eq =
     EvBeginBlock eq #
       (if is_eqn_vector opts then [EvShowEq eq (eqnsets eq) []]
        else map (EvShowEq eq (eqnsets eq)) (cart (setelements env) (eqnsets eq)))"

text \<open>The equations a loop processes: all of them, or the kept ones when it skips.\<close>

definition processed :: "bool \<Rightarrow> equation list \<Rightarrow> equation list" where
  "processed skip eqns = filter (\<lambda>eq. \<not> skip \<or> kept eq) eqns"

section \<open>Example data\<close>

text \<open>
  A small concrete environment and registry, used to run the definitions on explicit
  inputs.
\<close>

definition example_env :: env where
  "example_env = \<lparr>ismember = (\<lambda>x xs. x \<in> set xs), issubset = (\<lambda>a b. False),
     setelements = (\<lambda>s. if s = ''R'' then [''US'', ''EU'']
                         else if s = ''G'' then [''A'', ''B'', ''C''] else []),
     sub_offset = (\<lambda>str subs off. subs),
     slprint = (\<lambda>xs. concat (map (\<lambda>x. x @ '','') xs)),
     can_create = (\<lambda>f. True),
     symbol_subs = (\<lambda>domain setlist sublist. sublist)\<rparr>"

definition example_var :: variable where
  "example_var = \<lparr>var_str = ''X'', var_type = ''end'', var_unit = ''pct'',
     vecid = [0, Z1L, 0, 0, Z1R, 0], vecoff = [0, 0, 0, 0, 0, 0], stype = var_t, of_type = o_none,
     of_a = - 1, of_g = - 1, of_c = - 1, of_d = - 1, of_o = - 1, varsnum = 1\<rparr>"


definition example_symbol :: symbol where
  "example_symbol = \<lparr>symname = ''PRCT'', symdescrip = ''price'', symvalue = [],
     symattrib = [''ets'', ''pct''], symsize = 1, symtype = var_t, isident = True, isused = True\<rparr>"


text \<open>
  A model with the set R, the variable PRCT and two equations over R and G, the second
  of which mentions an undeclared name; the options of a scalar back end; and a back end
  whose hooks count the calls and never fail.
\<close>

definition example_set :: symbol where
  "example_set = \<lparr>symname = ''R'', symdescrip = ''regions'', symvalue = [''US'', ''EU''],
     symattrib = [], symsize = 2, symtype = set_t, isident = True, isused = True\<rparr>"

definition example_table :: symtable where
  "example_table t = (case t of set_t \<Rightarrow> [example_set] | par_t \<Rightarrow> [] | var_t \<Rightarrow> [example_symbol])"

definition example_options :: options where
  "example_options = \<lparr>is_eqn_set = True, is_sum_set = True, is_eqn_vector = False,
     is_sum_scalar = True, is_eqn_normalized = False, get_line_length = 75\<rparr>"

definition example_eqn :: equation where
  "example_eqn = \<lparr>getlhs = Null, getrhs = Null, eqnsets = [''R'', ''G''], eqncount = 6,
     hasundec = False, istimeok = True, islvalue = True\<rparr>"

definition example_undeclared :: equation where
  "example_undeclared = \<lparr>getlhs = Null, getrhs = Null, eqnsets = [''R''], eqncount = 2,
     hasundec = True, istimeok = True, islvalue = True\<rparr>"

definition counting_codegen :: "nat codegen" where
  "counting_codegen = \<lparr>codegen_begin_file = (\<lambda>basename s. (Suc s, None)),
     codegen_declare = (\<lambda>symb s. (Suc s, None)),
     codegen_begin_block = (\<lambda>eq s. (Suc s, None)),
     codegen_show_eq = (\<lambda>eq setlist sublist s. (Suc s, None)),
     codegen_end_file = (\<lambda>s. (Suc s, None))\<rparr>"

text \<open>The variable PRCT declared a second time, in lower case.\<close>

definition example_duplicate :: symbol where
  "example_duplicate = example_symbol\<lparr>symname := ''prct''\<rparr>"

definition example_duplicate_table :: symtable where
  "example_duplicate_table t =
     (case t of set_t \<Rightarrow> [example_set] | par_t \<Rightarrow> [] | var_t \<Rightarrow> [example_symbol, example_duplicate])"

section \<open>Verification\<close>


subsection \<open>Time shifts accepted by \<open>get_msgname\<close>\<close>

text \<open>
  Claim C10. In the simulation back end a symbol reference is rendered by \<open>get_msgname\<close>.
  Whenever it returns a name, the accumulated time shift \<open>dt\<close> of the reference is
  \<open>-1\<close>, \<open>0\<close> or \<open>1\<close>; a reference with \<open>dt < -1\<close> or \<open>dt > 1\<close> always ends in a fatal
  error; and once the variable has been found in the registry, that error is the
  nested-lag or nested-lead message whatever the variable's vector and offset tables
  hold, so it is raised before either table is read.
\<close>

theorem get_msgname_dt_range:
  "(get_msgname env st str sublist context = Inr s \<longrightarrow> dt context \<in> {- 1, 0, 1})
   \<and> (dt context < - 1 \<or> 1 < dt context \<longrightarrow> isl (get_msgname env st str sublist context))
   \<and> (v_head st \<noteq> [] \<and> find_variable str (v_head st) = Inr v \<and> dt context < - 1 \<longrightarrow>
        get_msgname env st str sublist context
          = Inl (MsgError ''lag(lag(var)) cannot be used with msgproc''))
   \<and> (v_head st \<noteq> [] \<and> find_variable str (v_head st) = Inr v \<and> 1 < dt context \<longrightarrow>
        get_msgname env st str sublist context
          = Inl (MsgError ''lead(lead(var)) cannot be used with msgproc''))"
  by (auto simp: get_msgname_def bind_err_def Let_def split: sum.splits if_splits)

theorem get_msgname_dt_range_witness:
  "get_msgname example_env (py_init\<lparr>v_head := [example_var]\<rparr>) ''x'' [] \<lparr>lhs = True, dt = 0\<rparr>
       = Inr ''z1l[]''
   \<and> dt \<lparr>lhs = True, dt = 0\<rparr> \<in> {- 1, 0, 1}
   \<and> find_variable ''x'' (v_head (py_init\<lparr>v_head := [example_var]\<rparr>)) = Inr example_var
   \<and> get_msgname example_env (py_init\<lparr>v_head := [example_var]\<rparr>) ''x'' [] \<lparr>lhs = False, dt = - 2\<rparr>
       = Inl (MsgError ''lag(lag(var)) cannot be used with msgproc'')
   \<and> isl (get_msgname example_env (py_init\<lparr>v_head := [example_var]\<rparr>) ''x'' [] \<lparr>lhs = False, dt = - 2\<rparr>)
   \<and> get_msgname example_env (py_init\<lparr>v_head := [example_var]\<rparr>) ''x'' [] \<lparr>lhs = True, dt = 2\<rparr>
       = Inl (MsgError ''lead(lead(var)) cannot be used with msgproc'')"
proof -
  let ?st = "py_init\<lparr>v_head := [example_var]\<rparr>"
  have run: "get_msgname example_env ?st ''x'' [] \<lparr>lhs = True, dt = 0\<rparr> = Inr ''z1l[]''"
    by (simp add: get_msgname_def bind_err_def example_env_def example_var_def py_init_def
        vecname_def vec_defs tolower_def)
  have found: "find_variable ''x'' (v_head ?st) = Inr example_var"
    by (simp add: example_var_def tolower_def)
  have ne: "v_head ?st \<noteq> []" by simp
  note a = get_msgname_dt_range [of example_env ?st "''x''" "[]" "\<lparr>lhs = True, dt = 0\<rparr>" "''z1l[]''" example_var]
  note b = get_msgname_dt_range [of example_env ?st "''x''" "[]" "\<lparr>lhs = False, dt = - 2\<rparr>" "[]" example_var]
  note c = get_msgname_dt_range [of example_env ?st "''x''" "[]" "\<lparr>lhs = True, dt = 2\<rparr>" "[]" example_var]
  from a run have "dt \<lparr>lhs = True, dt = 0\<rparr> \<in> {- 1, 0, 1}" by blast
  moreover from b found ne have "get_msgname example_env ?st ''x'' [] \<lparr>lhs = False, dt = - 2\<rparr>
       = Inl (MsgError ''lag(lag(var)) cannot be used with msgproc'')" by simp
  moreover from b have "isl (get_msgname example_env ?st ''x'' [] \<lparr>lhs = False, dt = - 2\<rparr>)" by simp
  moreover from c found ne have "get_msgname example_env ?st ''x'' [] \<lparr>lhs = True, dt = 2\<rparr>
       = Inl (MsgError ''lead(lead(var)) cannot be used with msgproc'')" by simp
  ultimately show ?thesis using run found by blast
qed

subsection \<open>The allocation loop of \<open>PYTHON_declare\<close>\<close>




























subsection \<open>The phases of \<open>PYTHON_declare\<close>\<close>







lemma bind_err_Inl: "m = Inl e \<Longrightarrow> bind_err m f = Inl e"
  by (simp add: bind_err_def)




lemma PYTHON_declare_set: "istype symb set_t \<Longrightarrow> PYTHON_declare env symb st = Inr st"
  by (simp add: PYTHON_declare_def)


subsection \<open>The sorted registry\<close>








subsection \<open>Runs of the driver\<close>

lemma call_failed: "failed r = Some e \<Longrightarrow> call ev h r = r"
  by (simp add: call_def)

lemma fault_unless_failed: "failed r = Some e \<Longrightarrow> fault_unless ok msg r = r"
  by (simp add: fault_unless_def)

lemma call_trace: "failed r = None \<Longrightarrow> trace (call ev h r) = trace r @ [ev]"
  by (simp add: call_def split: prod.splits)

lemma call_state: "failed r = None \<Longrightarrow> state (call ev h r) = fst (h (state r))"
  by (simp add: call_def split: prod.splits)

lemma call_outcome: "failed r = None \<Longrightarrow> failed (call ev h r) = snd (h (state r))"
  by (simp add: call_def split: prod.splits)

lemma fault_unless_trace: "trace (fault_unless ok msg r) = trace r"
  by (simp add: fault_unless_def)

lemma fault_unless_state: "state (fault_unless ok msg r) = state r"
  by (simp add: fault_unless_def)

lemma fault_unless_None:
  "failed (fault_unless ok msg r) = None \<longleftrightarrow> failed r = None \<and> ok"
  by (cases "failed r") (simp_all add: fault_unless_def)

lemma fault_unless_ok: "ok \<Longrightarrow> fault_unless ok msg r = r"
  by (simp add: fault_unless_def)

lemma fault_unless_fault:
  "failed r = None \<Longrightarrow> \<not> ok \<Longrightarrow> failed (fault_unless ok msg r) = Some (Fault msg)"
  by (simp add: fault_unless_def)

lemma fold_call_failed:
  "failed r = Some e \<Longrightarrow> fold (\<lambda>x. call (ev x) (h x)) xs r = r"
  by (induction xs) (simp_all add: call_failed)

text \<open>A call on a run given explicitly.\<close>

lemma call_run:
  "call ev h \<lparr>trace = t, state = s, failed = None\<rparr>
     = \<lparr>trace = t @ [ev], state = fst (h s), failed = snd (h s)\<rparr>"
  by (simp add: call_def split: prod.splits)

lemma fault_unless_run:
  "fault_unless True msg \<lparr>trace = t, state = s, failed = None\<rparr>
     = \<lparr>trace = t, state = s, failed = None\<rparr>"
  "fault_unless False msg \<lparr>trace = t, state = s, failed = None\<rparr>
     = \<lparr>trace = t, state = s, failed = Some (Fault msg)\<rparr>"
  by (simp_all add: fault_unless_def)

lemmas run_simps = call_run fault_unless_run write_file_def eqn_step_def scalar_eqns_def Let_def

lemma fold_call_trace:
  "\<exists>n\<le>length xs. trace (fold (\<lambda>x. call (ev x) (h x)) xs r) = trace r @ map ev (take n xs)
      \<and> (failed (fold (\<lambda>x. call (ev x) (h x)) xs r) = None \<longrightarrow> n = length xs \<and> failed r = None)"
proof (induction xs arbitrary: r)
  case Nil
  then show ?case by simp
next
  case (Cons x xs)
  show ?case
  proof (cases "failed r")
    case (Some e)
    have f: "fold (\<lambda>x. call (ev x) (h x)) (x # xs) r = r"
      by (rule fold_call_failed [OF Some])
    show ?thesis unfolding f by (intro exI [of _ 0]) (simp add: Some)
  next
    case None
    let ?r1 = "call (ev x) (h x) r"
    from Cons.IH [of ?r1] obtain n where
      n: "n \<le> length xs"
      "trace (fold (\<lambda>x. call (ev x) (h x)) xs ?r1) = trace ?r1 @ map ev (take n xs)"
      "failed (fold (\<lambda>x. call (ev x) (h x)) xs ?r1) = None \<longrightarrow> n = length xs"
      by auto
    have f: "fold (\<lambda>x. call (ev x) (h x)) (x # xs) r = fold (\<lambda>x. call (ev x) (h x)) xs ?r1"
      by simp
    show ?thesis unfolding f
      by (intro exI [of _ "Suc n"]) (simp add: n None call_trace [OF None])
  qed
qed

lemma fold_call_None:
  "failed (fold (\<lambda>x. call (ev x) (h x)) xs r) = None \<Longrightarrow> failed r = None"
  using fold_call_trace [of xs ev h r] by auto

lemma scalar_eqns_failed: "failed r = Some e \<Longrightarrow> scalar_eqns env cg eq r = r"
  by (simp add: scalar_eqns_def Let_def fold_call_failed fault_unless_failed)

lemma eqn_step_failed: "failed r = Some e \<Longrightarrow> eqn_step skip opts env cg eq r = r"
  by (simp add: eqn_step_def Let_def call_failed scalar_eqns_failed)

lemma fold_eqn_step_failed:
  "failed r = Some e \<Longrightarrow> fold (eqn_step skip opts env cg) eqns r = r"
  by (induction eqns) (simp_all add: eqn_step_failed)

text \<open>The scalar branch: the \<open>show_eq\<close> calls follow the tuples, in order.\<close>

lemma scalar_eqns_trace:
  "\<exists>n\<le>length (cart (setelements env) (eqnsets eq)).
      trace (scalar_eqns env cg eq r)
        = trace r @ map (EvShowEq eq (eqnsets eq)) (take n (cart (setelements env) (eqnsets eq)))
      \<and> (failed (scalar_eqns env cg eq r) = None \<longrightarrow>
           n = length (cart (setelements env) (eqnsets eq)) \<and> failed r = None
           \<and> eqncount eq = int (length (cart (setelements env) (eqnsets eq))))"
proof -
  define ts where "ts = cart (setelements env) (eqnsets eq)"
  define r1 where "r1 = fold (\<lambda>sublist. call (EvShowEq eq (eqnsets eq) sublist)
                                  (codegen_show_eq cg eq (eqnsets eq) sublist)) ts r"
  from fold_call_trace [of ts "EvShowEq eq (eqnsets eq)" "codegen_show_eq cg eq (eqnsets eq)" r]
  obtain n where n: "n \<le> length ts" "trace r1 = trace r @ map (EvShowEq eq (eqnsets eq)) (take n ts)"
    "failed r1 = None \<longrightarrow> n = length ts \<and> failed r = None"
    unfolding r1_def by auto
  have s: "scalar_eqns env cg eq r = fault_unless (eqncount eq - int (length ts) = 0)
      ''Incorrect number of equations written. Using # with a time set?'' r1"
    by (simp add: scalar_eqns_def Let_def ts_def r1_def)
  have "n \<le> length ts \<and> trace (scalar_eqns env cg eq r) = trace r @ map (EvShowEq eq (eqnsets eq)) (take n ts)
      \<and> (failed (scalar_eqns env cg eq r) = None \<longrightarrow>
           n = length ts \<and> failed r = None \<and> eqncount eq = int (length ts))"
    unfolding s using n by (simp add: fault_unless_trace fault_unless_None)
  then show ?thesis unfolding ts_def by (intro exI [of _ n])
qed

lemma eqn_step_skipped: "\<not> kept eq \<Longrightarrow> eqn_step True opts env cg eq r = r"
  by (simp add: eqn_step_def kept_def)

text \<open>One pass of the loop over the equations, when the equation is not skipped.\<close>

lemma eqn_step_trace:
  assumes "failed r = None" "\<not> skip \<or> kept eq"
  shows "\<exists>evs. trace (eqn_step skip opts env cg eq r) = trace r @ EvBeginBlock eq # evs
      \<and> (\<forall>e\<in>set evs. is_show_eq e)
      \<and> (failed (eqn_step skip opts env cg eq r) = None \<longrightarrow>
           evs = (if is_eqn_vector opts then [EvShowEq eq (eqnsets eq) []]
                  else map (EvShowEq eq (eqnsets eq)) (cart (setelements env) (eqnsets eq)))
           \<and> (\<not> is_eqn_vector opts \<longrightarrow> eqncount eq = int (length (cart (setelements env) (eqnsets eq)))))"
proof -
  define r1 where "r1 = call (EvBeginBlock eq) (codegen_begin_block cg eq) r"
  have t1: "trace r1 = trace r @ [EvBeginBlock eq]"
    unfolding r1_def using call_trace [OF assms(1)] by simp
  have e: "eqn_step skip opts env cg eq r =
      (if is_eqn_vector opts
       then call (EvShowEq eq (eqnsets eq) []) (codegen_show_eq cg eq (eqnsets eq) []) r1
       else scalar_eqns env cg eq r1)"
    using assms(2) by (auto simp: eqn_step_def kept_def Let_def r1_def)
  show ?thesis
  proof (cases "is_eqn_vector opts")
    case True
    show ?thesis
    proof (cases "failed r1")
      case None
      show ?thesis
        by (intro exI [of _ "[EvShowEq eq (eqnsets eq) []]"])
          (simp add: e True call_trace [OF None] t1)
    next
      case (Some x)
      then show ?thesis by (intro exI [of _ "[]"]) (simp add: e True t1 call_failed [OF Some])
    qed
  next
    case False
    from scalar_eqns_trace [of env eq cg r1] obtain n where
      n: "trace (scalar_eqns env cg eq r1)
        = trace r1 @ map (EvShowEq eq (eqnsets eq)) (take n (cart (setelements env) (eqnsets eq)))"
      "failed (scalar_eqns env cg eq r1) = None \<longrightarrow> n = length (cart (setelements env) (eqnsets eq))
         \<and> eqncount eq = int (length (cart (setelements env) (eqnsets eq)))"
      by auto
    show ?thesis
      by (intro exI [of _ "map (EvShowEq eq (eqnsets eq)) (take n (cart (setelements env) (eqnsets eq)))"])
        (use n in \<open>auto simp: e False t1 dest: in_set_takeD\<close>)
  qed
qed

lemma eqn_step_None:
  "failed (eqn_step skip opts env cg eq r) = None \<Longrightarrow> failed r = None"
  by (cases "failed r") (simp_all add: eqn_step_failed)

lemma fold_eqn_step_None:
  "failed (fold (eqn_step skip opts env cg) eqns r) = None \<Longrightarrow> failed r = None"
  by (cases "failed r") (simp_all add: fold_eqn_step_failed)

lemma block_events_eqn: "\<forall>e\<in>set (block_events opts env eq). is_eqn_event e"
  by (auto simp: block_events_def)

lemma filter_show_eq_blocks:
  "(\<forall>e\<in>set evs. is_show_eq e) \<Longrightarrow> filter is_begin_block evs = []"
proof (induction evs)
  case Nil then show ?case by simp
next
  case (Cons e evs)
  then show ?case by (cases e) simp_all
qed

lemma show_eq_is_eqn: "is_show_eq e \<Longrightarrow> is_eqn_event e"
  by (cases e) simp_all

text \<open>The loop over the equations.\<close>

lemma fold_eqn_step_trace:
  "\<exists>evs n. trace (fold (eqn_step skip opts env cg) eqns r) = trace r @ evs
      \<and> (\<forall>e\<in>set evs. is_eqn_event e)
      \<and> filter is_begin_block evs = map EvBeginBlock (take n (processed skip eqns))
      \<and> (failed (fold (eqn_step skip opts env cg) eqns r) = None \<longrightarrow>
           evs = concat (map (block_events opts env) (processed skip eqns))
           \<and> (\<not> is_eqn_vector opts \<longrightarrow> (\<forall>eq\<in>set (processed skip eqns).
                 eqncount eq = int (length (cart (setelements env) (eqnsets eq))))))"
proof (induction eqns arbitrary: r)
  case Nil
  show ?case by (intro exI [of _ "[]"] exI [of _ 0]) (simp add: processed_def)
next
  case (Cons eq eqns)
  show ?case
  proof (cases "failed r")
    case (Some x)
    have f: "fold (eqn_step skip opts env cg) (eq # eqns) r = r"
      by (rule fold_eqn_step_failed [OF Some])
    show ?thesis unfolding f by (intro exI [of _ "[]"] exI [of _ 0]) (simp add: Some)
  next
    case None
    show ?thesis
    proof (cases "\<not> skip \<or> kept eq")
      case False
      then have s: "eqn_step skip opts env cg eq r = r" by (simp add: eqn_step_def kept_def)
      have p: "processed skip (eq # eqns) = processed skip eqns"
        using False by (simp add: processed_def)
      have f: "fold (eqn_step skip opts env cg) (eq # eqns) r = fold (eqn_step skip opts env cg) eqns r"
        by (simp add: s)
      show ?thesis unfolding f p by (rule Cons.IH)
    next
      case True
      define r1 where "r1 = eqn_step skip opts env cg eq r"
      from eqn_step_trace [OF None True, of opts env cg] obtain evs1 where
        e1: "trace r1 = trace r @ EvBeginBlock eq # evs1" "\<forall>e\<in>set evs1. is_show_eq e"
        "failed r1 = None \<longrightarrow>
           evs1 = (if is_eqn_vector opts then [EvShowEq eq (eqnsets eq) []]
                  else map (EvShowEq eq (eqnsets eq)) (cart (setelements env) (eqnsets eq)))
           \<and> (\<not> is_eqn_vector opts \<longrightarrow> eqncount eq = int (length (cart (setelements env) (eqnsets eq))))"
        unfolding r1_def by auto
      from Cons.IH [of r1] obtain evs2 n where
        e2: "trace (fold (eqn_step skip opts env cg) eqns r1) = trace r1 @ evs2"
        "\<forall>e\<in>set evs2. is_eqn_event e"
        "filter is_begin_block evs2 = map EvBeginBlock (take n (processed skip eqns))"
        "failed (fold (eqn_step skip opts env cg) eqns r1) = None \<longrightarrow>
           evs2 = concat (map (block_events opts env) (processed skip eqns))
           \<and> (\<not> is_eqn_vector opts \<longrightarrow> (\<forall>eq\<in>set (processed skip eqns).
                 eqncount eq = int (length (cart (setelements env) (eqnsets eq)))))"
        by auto
      have p: "processed skip (eq # eqns) = eq # processed skip eqns"
        using True by (simp add: processed_def)
      have f: "fold (eqn_step skip opts env cg) (eq # eqns) r = fold (eqn_step skip opts env cg) eqns r1"
        by (simp add: r1_def)
      have ok: "failed (fold (eqn_step skip opts env cg) eqns r1) = None \<Longrightarrow> failed r1 = None"
        by (rule fold_eqn_step_None)
      have a: "trace (fold (eqn_step skip opts env cg) eqns r1) = trace r @ (EvBeginBlock eq # evs1 @ evs2)"
        by (simp add: e2(1) e1(1))
      have b: "\<forall>e\<in>set (EvBeginBlock eq # evs1 @ evs2). is_eqn_event e"
        using e1(2) e2(2) show_eq_is_eqn by auto
      have c: "filter is_begin_block (EvBeginBlock eq # evs1 @ evs2)
          = map EvBeginBlock (take (Suc n) (eq # processed skip eqns))"
        using filter_show_eq_blocks [OF e1(2)] e2(3) by simp
      have d: "failed (fold (eqn_step skip opts env cg) eqns r1) = None \<longrightarrow>
           EvBeginBlock eq # evs1 @ evs2 = concat (map (block_events opts env) (eq # processed skip eqns))
           \<and> (\<not> is_eqn_vector opts \<longrightarrow> (\<forall>eq\<in>set (eq # processed skip eqns).
                 eqncount eq = int (length (cart (setelements env) (eqnsets eq)))))"
        using e1(3) e2(4) ok by (auto simp: block_events_def)
      show ?thesis unfolding f p
        by (intro exI [of _ "EvBeginBlock eq # evs1 @ evs2"] exI [of _ "Suc n"] conjI a b c d)
    qed
  qed
qed

text \<open>The whole run.\<close>

lemma write_file_unfold:
  "write_file skip opts env cg tab eqns basename s0 =
     call EvEndFile (codegen_end_file cg)
       (fold (eqn_step skip opts env cg) eqns
         (fold (\<lambda>symb. call (EvDeclare symb) (codegen_declare cg symb))
            (tab set_t @ tab par_t @ tab var_t)
            (fault_unless (is_sum_set opts) ''Summation style has not been set''
              (fault_unless (is_eqn_set opts) ''Equation style has not been set''
                (call (EvBeginFile basename) (codegen_begin_file cg basename)
                   \<lparr>trace = [], state = s0, failed = None\<rparr>)))))"
  by (simp add: write_file_def Let_def)

lemma write_file_trace:
  "\<exists>n evs k tl. trace (write_file skip opts env cg tab eqns basename s0)
        = take n (decl_trace basename tab) @ evs @ tl
      \<and> 1 \<le> n \<and> (\<forall>e\<in>set evs. is_eqn_event e) \<and> (tl = [] \<or> tl = [EvEndFile])
      \<and> (evs @ tl \<noteq> [] \<longrightarrow> length (decl_trace basename tab) \<le> n)
      \<and> filter is_begin_block evs = map EvBeginBlock (take k (processed skip eqns))
      \<and> (failed (write_file skip opts env cg tab eqns basename s0) = None \<longrightarrow>
           length (decl_trace basename tab) \<le> n \<and> tl = [EvEndFile]
           \<and> evs = concat (map (block_events opts env) (processed skip eqns))
           \<and> (\<not> is_eqn_vector opts \<longrightarrow> (\<forall>eq\<in>set (processed skip eqns).
                 eqncount eq = int (length (cart (setelements env) (eqnsets eq))))))"
proof -
  define syms where "syms = tab set_t @ tab par_t @ tab var_t"
  define r3 where "r3 = fault_unless (is_sum_set opts) ''Summation style has not been set''
              (fault_unless (is_eqn_set opts) ''Equation style has not been set''
                (call (EvBeginFile basename) (codegen_begin_file cg basename)
                   \<lparr>trace = [], state = s0, failed = None\<rparr>))"
  define rd where "rd = fold (\<lambda>symb. call (EvDeclare symb) (codegen_declare cg symb)) syms r3"
  define re where "re = fold (eqn_step skip opts env cg) eqns rd"
  define r where "r = call EvEndFile (codegen_end_file cg) re"
  have w: "write_file skip opts env cg tab eqns basename s0 = r"
    unfolding write_file_unfold r_def re_def rd_def r3_def syms_def ..
  have D: "decl_trace basename tab = EvBeginFile basename # map EvDeclare syms"
    by (simp add: decl_trace_def syms_def)
  have t3: "trace r3 = [EvBeginFile basename]"
    unfolding r3_def by (simp add: fault_unless_trace call_trace)
  from fold_call_trace [of syms EvDeclare "codegen_declare cg" r3] obtain n0 where
    n0: "n0 \<le> length syms" "trace rd = trace r3 @ map EvDeclare (take n0 syms)"
    "failed rd = None \<longrightarrow> n0 = length syms"
    unfolding rd_def by auto
  have td: "trace rd = take (Suc n0) (decl_trace basename tab)"
    by (simp add: n0(2) t3 D take_map)
  show ?thesis unfolding w
  proof (cases "failed rd")
    case (Some x)
    have "re = rd" unfolding re_def by (rule fold_eqn_step_failed [OF Some])
    then have "r = rd" unfolding r_def using call_failed [OF Some] by simp
    then show "\<exists>n evs k tl. trace r = take n (decl_trace basename tab) @ evs @ tl
      \<and> 1 \<le> n \<and> (\<forall>e\<in>set evs. is_eqn_event e) \<and> (tl = [] \<or> tl = [EvEndFile])
      \<and> (evs @ tl \<noteq> [] \<longrightarrow> length (decl_trace basename tab) \<le> n)
      \<and> filter is_begin_block evs = map EvBeginBlock (take k (processed skip eqns))
      \<and> (failed r = None \<longrightarrow>
           length (decl_trace basename tab) \<le> n \<and> tl = [EvEndFile]
           \<and> evs = concat (map (block_events opts env) (processed skip eqns))
           \<and> (\<not> is_eqn_vector opts \<longrightarrow> (\<forall>eq\<in>set (processed skip eqns).
                 eqncount eq = int (length (cart (setelements env) (eqnsets eq))))))"
      by (intro exI [of _ "Suc n0"] exI [of _ "[]"] exI [of _ 0]) (simp add: td Some)
  next
    case None
    then have full: "trace rd = decl_trace basename tab"
      using n0 td by (simp add: D)
    from fold_eqn_step_trace [of skip opts env cg eqns rd] obtain evs k where
      e: "trace re = trace rd @ evs" "\<forall>e\<in>set evs. is_eqn_event e"
      "filter is_begin_block evs = map EvBeginBlock (take k (processed skip eqns))"
      "failed re = None \<longrightarrow>
           evs = concat (map (block_events opts env) (processed skip eqns))
           \<and> (\<not> is_eqn_vector opts \<longrightarrow> (\<forall>eq\<in>set (processed skip eqns).
                 eqncount eq = int (length (cart (setelements env) (eqnsets eq)))))"
      unfolding re_def by auto
    show "\<exists>n evs k tl. trace r = take n (decl_trace basename tab) @ evs @ tl
      \<and> 1 \<le> n \<and> (\<forall>e\<in>set evs. is_eqn_event e) \<and> (tl = [] \<or> tl = [EvEndFile])
      \<and> (evs @ tl \<noteq> [] \<longrightarrow> length (decl_trace basename tab) \<le> n)
      \<and> filter is_begin_block evs = map EvBeginBlock (take k (processed skip eqns))
      \<and> (failed r = None \<longrightarrow>
           length (decl_trace basename tab) \<le> n \<and> tl = [EvEndFile]
           \<and> evs = concat (map (block_events opts env) (processed skip eqns))
           \<and> (\<not> is_eqn_vector opts \<longrightarrow> (\<forall>eq\<in>set (processed skip eqns).
                 eqncount eq = int (length (cart (setelements env) (eqnsets eq))))))"
    proof (cases "failed re")
      case (Some x)
      have "r = re" unfolding r_def using call_failed [OF Some] by simp
      then show ?thesis
        by (intro exI [of _ "length (decl_trace basename tab)"] exI [of _ evs] exI [of _ k]
            exI [of _ "[]"]) (use e in \<open>simp add: full Some D\<close>)
    next
      case ok: None
      have tr: "trace r = trace re @ [EvEndFile]" unfolding r_def by (rule call_trace [OF ok])
      show ?thesis
        by (intro exI [of _ "length (decl_trace basename tab)"] exI [of _ evs] exI [of _ k]
            exI [of _ "[EvEndFile]"]) (use e ok in \<open>simp add: full tr D\<close>)
    qed
  qed
qed

subsection \<open>Order of the declarations\<close>

lemma decl_trace_no_blocks: "filter is_begin_block (take n (decl_trace basename tab)) = []"
proof -
  have "\<forall>e\<in>set (decl_trace basename tab). \<not> is_begin_block e"
    by (auto simp: decl_trace_def)
  then have "\<forall>e\<in>set (take n (decl_trace basename tab)). \<not> is_begin_block e"
    by (meson in_set_takeD)
  then show ?thesis by (simp add: filter_empty_conv)
qed

text \<open>
  Claim C9. In every run of \<open>Default_write_file\<close>, whatever the hooks do, the calls made
  are an initial part of the list "\<open>begin_file\<close>, then \<open>declare\<close> for each set, each
  parameter and each variable, in the order of the symbol table", followed by calls for
  equations and at most a final \<open>end_file\<close>; \<open>begin_file\<close> is always called; a call for an
  equation or \<open>end_file\<close> occurs only after the whole list, so after every declaration. In
  a run that ends without a fatal error the whole list is there, so \<open>declare\<close> is called
  exactly once per symbol, and no call for an equation is a declaration.
\<close>

theorem declarations_before_equations:
  "\<exists>n evs fin. trace (Default_write_file opts env cg tab eqns basename s0)
        = take n (EvBeginFile basename # map EvDeclare (tab set_t @ tab par_t @ tab var_t)) @ evs @ fin
      \<and> 1 \<le> n \<and> (\<forall>e\<in>set evs. is_eqn_event e) \<and> (fin = [] \<or> fin = [EvEndFile])
      \<and> (evs @ fin \<noteq> [] \<longrightarrow> length (tab set_t @ tab par_t @ tab var_t) < n)
      \<and> (failed (Default_write_file opts env cg tab eqns basename s0) = None \<longrightarrow>
           length (tab set_t @ tab par_t @ tab var_t) < n \<and> fin = [EvEndFile])"
  using write_file_trace [of True opts env cg tab eqns basename s0]
proof (elim exE conjE)
  fix n evs k fin
  assume h: "trace (write_file True opts env cg tab eqns basename s0)
        = take n (decl_trace basename tab) @ evs @ fin"
      "1 \<le> n" "\<forall>e\<in>set evs. is_eqn_event e" "fin = [] \<or> fin = [EvEndFile]"
      "evs @ fin \<noteq> [] \<longrightarrow> length (decl_trace basename tab) \<le> n"
      "failed (write_file True opts env cg tab eqns basename s0) = None \<longrightarrow>
           length (decl_trace basename tab) \<le> n \<and> fin = [EvEndFile]
           \<and> evs = concat (map (block_events opts env) (processed True eqns))
           \<and> (\<not> is_eqn_vector opts \<longrightarrow> (\<forall>eq\<in>set (processed True eqns).
                 eqncount eq = int (length (cart (setelements env) (eqnsets eq)))))"
  show ?thesis
    by (intro exI [of _ n] exI [of _ evs] exI [of _ fin])
      (use h in \<open>auto simp: Default_write_file_def decl_trace_def\<close>)
qed

lemma example_run:
  "Default_write_file example_options example_env counting_codegen example_table
       [example_eqn, example_undeclared] ''model'' 0
     = \<lparr>trace = [EvBeginFile ''model'', EvDeclare example_set, EvDeclare example_symbol,
          EvBeginBlock example_eqn,
          EvShowEq example_eqn [''R'', ''G''] [''US'', ''A''],
          EvShowEq example_eqn [''R'', ''G''] [''US'', ''B''],
          EvShowEq example_eqn [''R'', ''G''] [''US'', ''C''],
          EvShowEq example_eqn [''R'', ''G''] [''EU'', ''A''],
          EvShowEq example_eqn [''R'', ''G''] [''EU'', ''B''],
          EvShowEq example_eqn [''R'', ''G''] [''EU'', ''C''],
          EvEndFile],
        state = 11, failed = None\<rparr>"
  by (simp add: Default_write_file_def run_simps example_options_def example_env_def counting_codegen_def
      example_table_def example_eqn_def example_undeclared_def Let_def)

theorem declarations_before_equations_witness:
  "failed (Default_write_file example_options example_env counting_codegen example_table
       [example_eqn, example_undeclared] ''model'' 0) = None
   \<and> (\<exists>n evs. trace (Default_write_file example_options example_env counting_codegen
          example_table [example_eqn, example_undeclared] ''model'' 0)
        = take n (EvBeginFile ''model''
            # map EvDeclare (example_table set_t @ example_table par_t @ example_table var_t))
          @ evs @ [EvEndFile]
      \<and> length (example_table set_t @ example_table par_t @ example_table var_t) < n)"
proof -
  have ok: "failed (Default_write_file example_options example_env counting_codegen example_table
       [example_eqn, example_undeclared] ''model'' 0) = None"
    unfolding example_run by simp
  from declarations_before_equations [of example_options example_env counting_codegen
      example_table "[example_eqn, example_undeclared]" "''model''" 0] ok
  show ?thesis by blast
qed

subsection \<open>The documentation back end skips no equation\<close>

lemma begin_blocks_of_trace:
  assumes "\<forall>e\<in>set evs. is_eqn_event e" "fin = [] \<or> fin = [EvEndFile]"
  shows "filter is_begin_block (take n (decl_trace basename tab) @ evs @ fin) = filter is_begin_block evs"
  using assms(2) by (auto simp: decl_trace_no_blocks)

lemma write_file_blocks:
  "(\<exists>k. filter is_begin_block (trace (write_file skip opts env cg tab eqns basename s0))
            = map EvBeginBlock (take k (processed skip eqns)))
   \<and> (failed (write_file skip opts env cg tab eqns basename s0) = None \<longrightarrow>
        filter is_begin_block (trace (write_file skip opts env cg tab eqns basename s0))
            = map EvBeginBlock (processed skip eqns)
        \<and> filter is_eqn_event (trace (write_file skip opts env cg tab eqns basename s0))
            = concat (map (block_events opts env) (processed skip eqns)))"
  using write_file_trace [of skip opts env cg tab eqns basename s0]
proof (elim exE conjE)
  fix n evs k fin
  assume h: "trace (write_file skip opts env cg tab eqns basename s0)
        = take n (decl_trace basename tab) @ evs @ fin"
      "\<forall>e\<in>set evs. is_eqn_event e" "fin = [] \<or> fin = [EvEndFile]"
      "filter is_begin_block evs = map EvBeginBlock (take k (processed skip eqns))"
      "failed (write_file skip opts env cg tab eqns basename s0) = None \<longrightarrow>
           length (decl_trace basename tab) \<le> n \<and> fin = [EvEndFile]
           \<and> evs = concat (map (block_events opts env) (processed skip eqns))
           \<and> (\<not> is_eqn_vector opts \<longrightarrow> (\<forall>eq\<in>set (processed skip eqns).
                 eqncount eq = int (length (cart (setelements env) (eqnsets eq)))))"
  have b: "filter is_begin_block (trace (write_file skip opts env cg tab eqns basename s0))
      = filter is_begin_block evs"
    unfolding h(1) by (rule begin_blocks_of_trace [OF h(2) h(3)])
  have nd: "filter is_eqn_event (take n (decl_trace basename tab)) = []"
  proof -
    have "\<forall>e\<in>set (decl_trace basename tab). \<not> is_eqn_event e"
      by (auto simp: decl_trace_def)
    then have "\<forall>e\<in>set (take n (decl_trace basename tab)). \<not> is_eqn_event e"
      by (meson in_set_takeD)
    then show ?thesis by (simp add: filter_empty_conv)
  qed
  have e: "filter is_eqn_event (trace (write_file skip opts env cg tab eqns basename s0)) = evs"
    unfolding h(1) using h(2) h(3) nd by (auto simp: filter_id_conv)
  have fb: "filter is_begin_block (concat (map (block_events opts env) xs)) = map EvBeginBlock xs" for xs
    by (induction xs) (auto simp: block_events_def filter_empty_conv)
  show ?thesis
  proof (intro conjI impI)
    show "\<exists>k. filter is_begin_block (trace (write_file skip opts env cg tab eqns basename s0))
            = map EvBeginBlock (take k (processed skip eqns))"
      unfolding b using h(4) by (intro exI [of _ k])
  next
    assume ok: "failed (write_file skip opts env cg tab eqns basename s0) = None"
    then have ev: "evs = concat (map (block_events opts env) (processed skip eqns))"
      using h(5) by simp
    show "filter is_begin_block (trace (write_file skip opts env cg tab eqns basename s0))
            = map EvBeginBlock (processed skip eqns)"
      unfolding b ev by (rule fb)
    show "filter is_eqn_event (trace (write_file skip opts env cg tab eqns basename s0))
            = concat (map (block_events opts env) (processed skip eqns))"
      unfolding e ev ..
  qed
qed

text \<open>
  Claim C6. The calls of \<open>begin_block\<close> in a run of \<open>HTML_write_file\<close> are an initial part
  of the list of all equations in file order, whatever \<open>hasundec\<close> and \<open>istimeok\<close> say of
  them, and the whole list when the run ends without a fatal error; in that case the
  calls for equations are, for every equation in file order, \<open>begin_block\<close> and the
  \<open>show_eq\<close> calls of the mode. \<open>Default_write_file\<close> does the same for the kept equations
  only.
\<close>

theorem html_renders_every_equation:
  "(\<exists>k. filter is_begin_block (trace (HTML_write_file opts env cg tab eqns basename s0))
            = map EvBeginBlock (take k eqns))
   \<and> (failed (HTML_write_file opts env cg tab eqns basename s0) = None \<longrightarrow>
        filter is_begin_block (trace (HTML_write_file opts env cg tab eqns basename s0))
            = map EvBeginBlock eqns
        \<and> filter is_eqn_event (trace (HTML_write_file opts env cg tab eqns basename s0))
            = concat (map (block_events opts env) eqns))
   \<and> (failed (Default_write_file opts env cg tab eqns basename s0) = None \<longrightarrow>
        filter is_begin_block (trace (Default_write_file opts env cg tab eqns basename s0))
            = map EvBeginBlock (filter kept eqns))"
  using write_file_blocks [of False opts env cg tab eqns basename s0]
    write_file_blocks [of True opts env cg tab eqns basename s0]
  by (simp add: HTML_write_file_def Default_write_file_def processed_def)

lemma example_html_run:
  "failed (HTML_write_file example_options example_env counting_codegen example_table
       [example_eqn, example_undeclared] ''model'' 0) = None"
  by (simp add: HTML_write_file_def run_simps example_options_def example_env_def counting_codegen_def
      example_table_def example_eqn_def example_undeclared_def Let_def)

theorem html_renders_every_equation_witness:
  "hasundec example_undeclared
   \<and> failed (HTML_write_file example_options example_env counting_codegen example_table
       [example_eqn, example_undeclared] ''model'' 0) = None
   \<and> filter is_begin_block (trace (HTML_write_file example_options example_env counting_codegen
       example_table [example_eqn, example_undeclared] ''model'' 0))
       = [EvBeginBlock example_eqn, EvBeginBlock example_undeclared]
   \<and> failed (Default_write_file example_options example_env counting_codegen example_table
       [example_eqn, example_undeclared] ''model'' 0) = None
   \<and> filter is_begin_block (trace (Default_write_file example_options example_env
       counting_codegen example_table [example_eqn, example_undeclared] ''model'' 0))
       = [EvBeginBlock example_eqn]"
proof -
  have ok: "failed (Default_write_file example_options example_env counting_codegen example_table
       [example_eqn, example_undeclared] ''model'' 0) = None"
    unfolding example_run by simp
  have k: "filter kept [example_eqn, example_undeclared] = [example_eqn]"
    by (simp add: kept_def example_eqn_def example_undeclared_def)
  have u: "hasundec example_undeclared" by (simp add: example_undeclared_def)
  from html_renders_every_equation [of example_options example_env counting_codegen
      example_table "[example_eqn, example_undeclared]" "''model''" 0] ok example_html_run k u
  show ?thesis by simp
qed

subsection \<open>Scalar equations\<close>

lemma fold_call_ok:
  assumes "failed r = None" "\<And>x s. snd (h x s) = None"
  shows "failed (fold (\<lambda>x. call (ev x) (h x)) xs r) = None
     \<and> trace (fold (\<lambda>x. call (ev x) (h x)) xs r) = trace r @ map ev xs"
  using assms(1)
proof (induction xs arbitrary: r)
  case Nil
  then show ?case by simp
next
  case (Cons x xs)
  have f: "failed (call (ev x) (h x) r) = None"
    using call_outcome [OF Cons.prems] assms(2) by simp
  have t: "trace (call (ev x) (h x) r) = trace r @ [ev x]"
    by (rule call_trace [OF Cons.prems])
  from Cons.IH [OF f] show ?case by (simp add: t)
qed

lemma scalar_eqns_fault:
  assumes "failed r = None" "\<And>sublist s. snd (codegen_show_eq cg eq (eqnsets eq) sublist s) = None"
    and "eqncount eq \<noteq> int (length (cart (setelements env) (eqnsets eq)))"
  shows "failed (scalar_eqns env cg eq r)
       = Some (Fault ''Incorrect number of equations written. Using # with a time set?'')
     \<and> trace (scalar_eqns env cg eq r)
       = trace r @ map (EvShowEq eq (eqnsets eq)) (cart (setelements env) (eqnsets eq))"
proof -
  define r1 where "r1 = fold (\<lambda>sublist. call (EvShowEq eq (eqnsets eq) sublist)
      (codegen_show_eq cg eq (eqnsets eq) sublist)) (cart (setelements env) (eqnsets eq)) r"
  have a: "failed r1 = None
     \<and> trace r1 = trace r @ map (EvShowEq eq (eqnsets eq)) (cart (setelements env) (eqnsets eq))"
    unfolding r1_def by (rule fold_call_ok [OF assms(1)]) (rule assms(2))
  have e: "scalar_eqns env cg eq r
      = fault_unless (eqncount eq - int (length (cart (setelements env) (eqnsets eq))) = 0)
          ''Incorrect number of equations written. Using # with a time set?'' r1"
    by (simp add: scalar_eqns_def Let_def r1_def)
  show ?thesis
    unfolding e using a assms(3) by (simp add: fault_unless_trace fault_unless_fault)
qed

lemma cart_length: "length (cart elems sets) = prod_list (map (\<lambda>s. length (elems s)) sets)"
proof (induction sets)
  case Nil
  then show ?case by simp
next
  case (Cons s sets)
  have "length (concat (map (\<lambda>e. map ((#) e) (cart elems sets)) xs))
      = length xs * length (cart elems sets)" for xs
    by (induction xs) simp_all
  then show ?case using Cons by simp
qed

lemma example_cart:
  "cart (setelements example_env) [''R'', ''G'']
     = [[''US'', ''A''], [''US'', ''B''], [''US'', ''C''],
        [''EU'', ''A''], [''EU'', ''B''], [''EU'', ''C'']]"
  by (simp add: example_env_def)

text \<open>
  Claim C4. With the scalar equation style, one pass of the loop of \<open>Default_write_file\<close>
  over an equation it does not skip calls \<open>begin_block\<close> and then \<open>show_eq\<close> for an initial
  part of the tuples of the Cartesian product of \<open>eqnsets\<close>, in the iterator's order, each
  with the equation's sets and the tuple as subscripts. If the pass ends without a fatal
  error, every tuple was visited once and \<open>eqncount\<close> is the number of tuples; so a
  different \<open>eqncount\<close> always ends in a fatal error, and when the hooks themselves do not
  fail it is the \<open>FAULT\<close> "Incorrect number of equations written", raised after the last
  tuple. The iterator varies the last set fastest, the number of tuples is the product of
  the sizes of the sets, and R = {US, EU}, G = {A, B, C} give the six tuples in the order
  (US,A), (US,B), (US,C), (EU,A), (EU,B), (EU,C).
\<close>

theorem scalar_show_eq_per_tuple:
  assumes "\<not> is_eqn_vector opts" "kept eq" "failed r = None"
  shows "(\<exists>n\<le>length (cart (setelements env) (eqnsets eq)).
        trace (eqn_step True opts env cg eq r)
          = trace r @ EvBeginBlock eq
              # map (EvShowEq eq (eqnsets eq)) (take n (cart (setelements env) (eqnsets eq)))
        \<and> (failed (eqn_step True opts env cg eq r) = None \<longrightarrow>
             n = length (cart (setelements env) (eqnsets eq))
             \<and> eqncount eq = int (length (cart (setelements env) (eqnsets eq)))))
     \<and> (eqncount eq \<noteq> int (length (cart (setelements env) (eqnsets eq))) \<longrightarrow>
          failed (eqn_step True opts env cg eq r) \<noteq> None)
     \<and> (eqncount eq \<noteq> int (length (cart (setelements env) (eqnsets eq)))
          \<and> (\<forall>s. snd (codegen_begin_block cg eq s) = None)
          \<and> (\<forall>sublist s. snd (codegen_show_eq cg eq (eqnsets eq) sublist s) = None) \<longrightarrow>
          failed (eqn_step True opts env cg eq r)
            = Some (Fault ''Incorrect number of equations written. Using # with a time set?'')
          \<and> trace (eqn_step True opts env cg eq r)
            = trace r @ EvBeginBlock eq
                # map (EvShowEq eq (eqnsets eq)) (cart (setelements env) (eqnsets eq)))
     \<and> length (cart (setelements env) (eqnsets eq))
         = prod_list (map (\<lambda>s. length (setelements env s)) (eqnsets eq))
     \<and> (\<forall>s ss. cart (setelements env) (s # ss)
           = concat (map (\<lambda>e. map ((#) e) (cart (setelements env) ss)) (setelements env s)))
     \<and> cart (setelements example_env) [''R'', ''G'']
         = [[''US'', ''A''], [''US'', ''B''], [''US'', ''C''],
            [''EU'', ''A''], [''EU'', ''B''], [''EU'', ''C'']]"
proof -
  define r1 where "r1 = call (EvBeginBlock eq) (codegen_begin_block cg eq) r"
  have t1: "trace r1 = trace r @ [EvBeginBlock eq]"
    unfolding r1_def by (rule call_trace [OF assms(3)])
  have e: "eqn_step True opts env cg eq r = scalar_eqns env cg eq r1"
    using assms(1,2) by (simp add: eqn_step_def kept_def Let_def r1_def)
  from scalar_eqns_trace [of env eq cg r1] obtain n
    where n: "n \<le> length (cart (setelements env) (eqnsets eq))"
      "trace (scalar_eqns env cg eq r1)
        = trace r1 @ map (EvShowEq eq (eqnsets eq)) (take n (cart (setelements env) (eqnsets eq)))"
      "failed (scalar_eqns env cg eq r1) = None \<longrightarrow>
           n = length (cart (setelements env) (eqnsets eq)) \<and> failed r1 = None
           \<and> eqncount eq = int (length (cart (setelements env) (eqnsets eq)))"
    by auto
  have A: "\<exists>n\<le>length (cart (setelements env) (eqnsets eq)).
        trace (eqn_step True opts env cg eq r)
          = trace r @ EvBeginBlock eq
              # map (EvShowEq eq (eqnsets eq)) (take n (cart (setelements env) (eqnsets eq)))
        \<and> (failed (eqn_step True opts env cg eq r) = None \<longrightarrow>
             n = length (cart (setelements env) (eqnsets eq))
             \<and> eqncount eq = int (length (cart (setelements env) (eqnsets eq))))"
    unfolding e using n t1 by (intro exI [of _ n]) simp
  have B: "eqncount eq \<noteq> int (length (cart (setelements env) (eqnsets eq))) \<longrightarrow>
          failed (eqn_step True opts env cg eq r) \<noteq> None"
    unfolding e using n(3) by (cases "failed (scalar_eqns env cg eq r1)") auto
  have C: "eqncount eq \<noteq> int (length (cart (setelements env) (eqnsets eq)))
          \<and> (\<forall>s. snd (codegen_begin_block cg eq s) = None)
          \<and> (\<forall>sublist s. snd (codegen_show_eq cg eq (eqnsets eq) sublist s) = None) \<longrightarrow>
          failed (eqn_step True opts env cg eq r)
            = Some (Fault ''Incorrect number of equations written. Using # with a time set?'')
          \<and> trace (eqn_step True opts env cg eq r)
            = trace r @ EvBeginBlock eq
                # map (EvShowEq eq (eqnsets eq)) (cart (setelements env) (eqnsets eq))"
  proof (intro impI, elim conjE)
    assume ne: "eqncount eq \<noteq> int (length (cart (setelements env) (eqnsets eq)))"
      and bb: "\<forall>s. snd (codegen_begin_block cg eq s) = None"
      and se: "\<forall>sublist s. snd (codegen_show_eq cg eq (eqnsets eq) sublist s) = None"
    have f1: "failed r1 = None"
      unfolding r1_def using call_outcome [OF assms(3)] bb by simp
    from scalar_eqns_fault [OF f1 _ ne] se
    show "failed (eqn_step True opts env cg eq r)
            = Some (Fault ''Incorrect number of equations written. Using # with a time set?'')
          \<and> trace (eqn_step True opts env cg eq r)
            = trace r @ EvBeginBlock eq
                # map (EvShowEq eq (eqnsets eq)) (cart (setelements env) (eqnsets eq))"
      unfolding e by (simp add: t1)
  qed
  show ?thesis
    using A B C cart_length [of "setelements env" "eqnsets eq"] example_cart by simp
qed

lemma example_step:
  "eqn_step True example_options example_env counting_codegen example_eqn
       \<lparr>trace = [], state = 0, failed = None\<rparr>
     = \<lparr>trace = [EvBeginBlock example_eqn,
          EvShowEq example_eqn [''R'', ''G''] [''US'', ''A''],
          EvShowEq example_eqn [''R'', ''G''] [''US'', ''B''],
          EvShowEq example_eqn [''R'', ''G''] [''US'', ''C''],
          EvShowEq example_eqn [''R'', ''G''] [''EU'', ''A''],
          EvShowEq example_eqn [''R'', ''G''] [''EU'', ''B''],
          EvShowEq example_eqn [''R'', ''G''] [''EU'', ''C'']],
        state = 7, failed = None\<rparr>"
  by (simp add: run_simps example_options_def
      example_env_def counting_codegen_def example_eqn_def Let_def)

theorem scalar_show_eq_per_tuple_witness:
  "\<not> is_eqn_vector example_options \<and> kept example_eqn
   \<and> failed (eqn_step True example_options example_env counting_codegen example_eqn
        \<lparr>trace = [], state = 0, failed = None\<rparr>) = None
   \<and> eqncount example_eqn = int (length (cart (setelements example_env) (eqnsets example_eqn)))
   \<and> eqncount example_eqn = 6
   \<and> kept (example_eqn\<lparr>eqncount := 5\<rparr>)
   \<and> failed (eqn_step True example_options example_env counting_codegen
        (example_eqn\<lparr>eqncount := 5\<rparr>) \<lparr>trace = [], state = 0, failed = None\<rparr>)
       = Some (Fault ''Incorrect number of equations written. Using # with a time set?'')"
proof -
  have v: "\<not> is_eqn_vector example_options" by (simp add: example_options_def)
  have k: "kept example_eqn" "kept (example_eqn\<lparr>eqncount := 5\<rparr>)"
    by (simp_all add: kept_def example_eqn_def)
  have f: "failed (eqn_step True example_options example_env counting_codegen example_eqn
        \<lparr>trace = [], state = 0, failed = None\<rparr>) = None"
    unfolding example_step by simp
  have r0: "failed \<lparr>trace = [], state = 0::nat, failed = None\<rparr> = None" by simp
  have c: "eqncount example_eqn = 6" by (simp add: example_eqn_def)
  have ne: "eqncount (example_eqn\<lparr>eqncount := 5\<rparr>)
      \<noteq> int (length (cart (setelements example_env) (eqnsets (example_eqn\<lparr>eqncount := 5\<rparr>))))"
    by (simp add: example_eqn_def example_env_def)
  have h: "\<forall>s. snd (codegen_begin_block counting_codegen (example_eqn\<lparr>eqncount := 5\<rparr>) s) = None"
    "\<forall>sublist s. snd (codegen_show_eq counting_codegen (example_eqn\<lparr>eqncount := 5\<rparr>)
        (eqnsets (example_eqn\<lparr>eqncount := 5\<rparr>)) sublist s) = None"
    by (simp_all add: counting_codegen_def)
  from scalar_show_eq_per_tuple [OF v k(1) r0, of example_env counting_codegen] f
  have a: "eqncount example_eqn = int (length (cart (setelements example_env) (eqnsets example_eqn)))"
    by blast
  from scalar_show_eq_per_tuple [OF v k(2) r0, of example_env counting_codegen] ne h
  have b: "failed (eqn_step True example_options example_env counting_codegen
        (example_eqn\<lparr>eqncount := 5\<rparr>) \<lparr>trace = [], state = 0, failed = None\<rparr>)
       = Some (Fault ''Incorrect number of equations written. Using # with a time set?'')"
    by blast
  show ?thesis using v k f a c b by simp
qed

end
